theory Spec2Isabelle
  imports Complex_Main "HOL-Library.AList"
begin

section \<open>Calendar dates and times of day\<close>

text \<open>
  The components receive work dates as \<^verbatim>\<open>'YYYY-MM-DD'\<close> strings and hand them to the
  date library (\<^verbatim>\<open>parseISO\<close>, \<^verbatim>\<open>getDay\<close>, \<^verbatim>\<open>startOfWeek\<close>, \<^verbatim>\<open>endOfWeek\<close>,
  \<^verbatim>\<open>isWithinInterval\<close>, \<^verbatim>\<open>isSameDay\<close>). A parsed calendar date is represented by its day
  number counted from 1970-01-01, which is day 0 and a Thursday. All comparisons of the
  components are between whole days (local midnight, local noon, or the last millisecond
  of a Sunday), so the day number decides them.
\<close>

type_synonym date = int

definition getDay :: "date \<Rightarrow> int" where
  \<comment> \<open>0 = Sunday, 1 = Monday, ..., 5 = Friday, 6 = Saturday\<close>
  "getDay d = (d + 4) mod 7"

definition startOfWeek :: "date \<Rightarrow> date" where
  \<comment> \<open>\<^verbatim>\<open>startOfWeek(date, { weekStartsOn: 1 })\<close>: the Monday on or before the date\<close>
  "startOfWeek d = d - ((getDay d + 6) mod 7)"

definition endOfWeek :: "date \<Rightarrow> date" where
  \<comment> \<open>\<^verbatim>\<open>endOfWeek(date, { weekStartsOn: 1 })\<close>: the Sunday on or after the date\<close>
  "endOfWeek d = startOfWeek d + 6"

definition isWithinInterval :: "date \<Rightarrow> date \<Rightarrow> date \<Rightarrow> bool" where
  "isWithinInterval d start end = (start \<le> d \<and> d \<le> end)"

definition isSameDay :: "date \<Rightarrow> date \<Rightarrow> bool" where
  "isSameDay a b = (a = b)"

text \<open>
  A time of day arrives as an \<^verbatim>\<open>'HH:MM'\<close> string. \<open>Clock h m\<close> stands for the two numbers
  that \<^verbatim>\<open>timeStr.split(':').map(Number)\<close> yields; an absent or empty string is \<open>None\<close>.
\<close>

datatype clock = Clock (hh: nat) (mm: nat)

definition validClock :: "clock \<Rightarrow> bool" where
  "validClock c = (hh c < 24 \<and> mm c < 60)"

definition timeToMinutes :: "clock option \<Rightarrow> int" where
  "timeToMinutes timeStr =
     (case timeStr of
        None \<Rightarrow> 0
      | Some c \<Rightarrow> int (hh c) * 60 + int (mm c))"

section \<open>Numbers\<close>

text \<open>
  A number field of the model (hours, limits) holds the decimal number that the JSON text
  of the store or the text of an input denotes, as an exact rational. The program
  computes with the IEEE 754 double nearest to it, and every sum and difference of the
  program is rounded to a double again. \<open>toDouble\<close> is that rounding (to nearest,
  ties to even, 53 significant bits); the exponent range of doubles is not represented,
  hours being far from it. \<open>bitLength n\<close> is the number of binary digits of a positive
  integer, \<open>expo2 a\<close> the exponent \<open>e\<close> with \<open>2^e \<le> a < 2^(e+1)\<close> of a positive
  rational.
\<close>

function bitLength :: "int \<Rightarrow> int" where
  "bitLength n = (if n \<le> 0 then 0 else 1 + bitLength (n div 2))"
  by auto
termination
  by (relation "measure nat") auto

declare bitLength.simps [simp del]

definition expo2 :: "rat \<Rightarrow> int" where
  "expo2 a =
     (let (p, q) = quotient_of a;
          e0 = bitLength p - bitLength q
      in if 2 powi e0 \<le> a then e0 else e0 - 1)"

definition roundEven :: "rat \<Rightarrow> int" where
  "roundEven y =
     (let f = \<lfloor>y\<rfloor>; d = y - rat_of_int f
      in if d < 1/2 then f
         else if 1/2 < d then f + 1
         else if even f then f else f + 1)"

definition toDouble :: "rat \<Rightarrow> rat" where
  "toDouble x =
     (if x = 0 then 0
      else let ulp = 2 powi (expo2 \<bar>x\<bar> - 52)
           in rat_of_int (roundEven (x / ulp)) * ulp)"

definition fadd :: "rat \<Rightarrow> rat \<Rightarrow> rat" where
  \<comment> \<open>\<^verbatim>\<open>a + b\<close> on doubles\<close>
  "fadd a b = toDouble (a + b)"

definition fsub :: "rat \<Rightarrow> rat \<Rightarrow> rat" where
  \<comment> \<open>\<^verbatim>\<open>a - b\<close> on doubles\<close>
  "fsub a b = toDouble (a - b)"

text \<open>
  A whole number of quarters of an hour is a double while it is below \<open>2^50\<close>, and so
  are the sums and differences of such numbers. \<open>quarterHours\<close> are the hours for which
  the program's arithmetic is therefore exact: whole quarters, not negative, at most
  \<open>maxExactHours\<close>. The number input of the entry form steps by half hours.
\<close>

definition wholeQuarters :: "rat \<Rightarrow> bool" where
  "wholeQuarters x = (rat_of_int \<lfloor>4 * x\<rfloor> = 4 * x)"

definition maxExactHours :: rat where
  "maxExactHours = 2 ^ 49"

definition quarterHours :: "rat \<Rightarrow> bool" where
  "quarterHours x = (wholeQuarters x \<and> 0 \<le> x \<and> x \<le> maxExactHours)"

text \<open>
  A running total of doubles, as \<^verbatim>\<open>sum += x\<close> in a loop or \<^verbatim>\<open>reduce\<close> computes it, from 0 and
  in the order of the list.
\<close>

definition doubleSum :: "rat list \<Rightarrow> rat" where
  "doubleSum xs = foldl (\<lambda>sum x. fadd sum (toDouble x)) 0 xs"

text \<open>
  \<^verbatim>\<open>x.toFixed(2)\<close> prints the nearest hundredth, a tie going away from zero; the
  breakdown records below hold the number so printed.
\<close>

definition toFixed2 :: "rat \<Rightarrow> rat" where
  "toFixed2 x =
     (if x < 0 then - (rat_of_int (round (- x * 100)) / 100)
      else rat_of_int (round (x * 100)) / 100)"

section \<open>Data model\<close>

record daily_limits =
  monday :: "rat option"
  tuesday :: "rat option"
  wednesday :: "rat option"
  thursday :: "rat option"
  friday :: "rat option"
  saturday :: "rat option"
  sunday :: "rat option"

text \<open>
  The settings object as the settings store returns it. A key that is missing (or holds
  an empty value) is \<open>None\<close>; the surrounding quote characters that the components strip
  from the schedule strings are not represented.
\<close>

record settings =
  normal_hours_start :: "clock option"
  normal_hours_end :: "clock option"
  normal_hours_end_friday :: "clock option"
  saturday_hours_start :: "clock option"
  saturday_hours_end :: "clock option"
  weekly_limit :: "rat option"
  daily_limits_cfg :: "daily_limits option"

text \<open>
  A report as the review and report screens read it. \<open>aprobado\<close> is the integer status
  of the store: 1 approved, 2 rejected, 3 approved without overtime, anything else
  (0 or absent) pending.
\<close>

record Reporte =
  report_id :: int
  horas :: rat
  fecha_trabajada :: "date option"
  cliente :: string
  nombre_company :: "string option"
  documento_id :: int
  aprobado :: "int option"
  aprobadopor :: "int option"
  hora_inicio :: "clock option"
  hora_fin :: "clock option"

record breakdown =
  normal :: rat
  extra :: rat
  total :: rat

section \<open>Splitting worked time into normal and overtime\<close>

text \<open>
  The minute counts computed inside \<^verbatim>\<open>calculateHoursBreakdown\<close>, before they are rounded
  to hours at the return.
\<close>

record minuteSplit =
  normalMinutes :: int
  extraMinutes :: int
  totalMinutes :: int

definition hoursOfSplit :: "minuteSplit \<Rightarrow> breakdown" where
  "hoursOfSplit ms =
     \<lparr> normal = toFixed2 (rat_of_int (normalMinutes ms) / 60),
       extra = toFixed2 (rat_of_int (extraMinutes ms) / 60),
       total = toFixed2 (rat_of_int (totalMinutes ms) / 60) \<rparr>"

definition legacyBreakdown :: "Reporte \<Rightarrow> breakdown" where
  "legacyBreakdown report = \<lparr> normal = horas report, extra = 0, total = horas report \<rparr>"

subsection \<open>The monthly overtime report (OvertimeReport.tsx)\<close>

definition splitMinutes_OvertimeReport ::
  "settings \<Rightarrow> clock \<Rightarrow> clock \<Rightarrow> date \<Rightarrow> minuteSplit" where
  "splitMinutes_OvertimeReport st inicio fin fecha =
     (let startMin = timeToMinutes (Some inicio);
          endMin = timeToMinutes (Some fin);
          totalMinutes0 = endMin - startMin;
          totalMin = (if totalMinutes0 < 0 then totalMinutes0 + 24 * 60 else totalMinutes0);
          dayOfWeek = getDay fecha
      in if dayOfWeek = 0
         then \<lparr> normalMinutes = 0, extraMinutes = totalMin, totalMinutes = totalMin \<rparr>
         else
           let normalStartStr0 = (case normal_hours_start st of Some c \<Rightarrow> c | None \<Rightarrow> Clock 7 30);
               normalEndStr0 = (case normal_hours_end st of Some c \<Rightarrow> c | None \<Rightarrow> Clock 17 30);
               normalStartStr =
                 (if dayOfWeek = 6
                  then (case saturday_hours_start st of Some c \<Rightarrow> c | None \<Rightarrow> Clock 7 30)
                  else normalStartStr0);
               normalEndStr1 =
                 (if dayOfWeek = 6
                  then (case saturday_hours_end st of Some c \<Rightarrow> c | None \<Rightarrow> Clock 12 0)
                  else normalEndStr0);
               normalEndStr =
                 (if dayOfWeek = 5
                  then (case normal_hours_end_friday st of Some c \<Rightarrow> c | None \<Rightarrow> normalEndStr1)
                  else normalEndStr1);
               limitStart = timeToMinutes (Some normalStartStr);
               limitEnd = timeToMinutes (Some normalEndStr);
               overlapStart = max startMin limitStart;
               overlapEnd = min endMin limitEnd;
               normalMin = (if overlapStart < overlapEnd then overlapEnd - overlapStart else 0);
               extraMin = max 0 (totalMin - normalMin)
           in \<lparr> normalMinutes = normalMin, extraMinutes = extraMin, totalMinutes = totalMin \<rparr>)"

definition calculateHoursBreakdown_OvertimeReport ::
  "settings option \<Rightarrow> Reporte \<Rightarrow> breakdown" where
  "calculateHoursBreakdown_OvertimeReport sto report =
     (case (hora_inicio report, hora_fin report, fecha_trabajada report, sto) of
        (Some inicio, Some fin, Some fecha, Some st) \<Rightarrow>
          hoursOfSplit (splitMinutes_OvertimeReport st inicio fin fecha)
      | _ \<Rightarrow> legacyBreakdown report)"

subsection \<open>The payroll review screen (PayrollReview)\<close>

definition splitMinutes_PayrollReview ::
  "settings \<Rightarrow> clock \<Rightarrow> clock \<Rightarrow> date \<Rightarrow> minuteSplit" where
  "splitMinutes_PayrollReview st inicio fin fecha =
     (let startMin = timeToMinutes (Some inicio);
          endMin = timeToMinutes (Some fin);
          dayOfWeek = getDay fecha;
          normalStartStr = (case normal_hours_start st of Some c \<Rightarrow> c | None \<Rightarrow> Clock 7 30);
          normalEndStr0 = (case normal_hours_end st of Some c \<Rightarrow> c | None \<Rightarrow> Clock 17 30);
          normalEndStr =
            (if dayOfWeek = 5
             then (case normal_hours_end_friday st of Some c \<Rightarrow> c | None \<Rightarrow> normalEndStr0)
             else normalEndStr0);
          limitStart = timeToMinutes (Some normalStartStr);
          limitEnd = timeToMinutes (Some normalEndStr);
          overlapStart = max startMin limitStart;
          overlapEnd = min endMin limitEnd;
          normalMin = (if overlapStart < overlapEnd then overlapEnd - overlapStart else 0);
          totalMinutes0 = endMin - startMin;
          totalMin = (if totalMinutes0 < 0 then totalMinutes0 + 24 * 60 else totalMinutes0);
          extraMin = max 0 (totalMin - normalMin)
      in \<lparr> normalMinutes = normalMin, extraMinutes = extraMin, totalMinutes = totalMin \<rparr>)"

definition calculateHoursBreakdown_PayrollReview ::
  "settings option \<Rightarrow> Reporte \<Rightarrow> breakdown" where
  "calculateHoursBreakdown_PayrollReview sto report =
     (case (hora_inicio report, hora_fin report, fecha_trabajada report, sto) of
        (Some inicio, Some fin, Some fecha, Some st) \<Rightarrow>
          hoursOfSplit (splitMinutes_PayrollReview st inicio fin fecha)
      | _ \<Rightarrow> legacyBreakdown report)"

subsection \<open>The earlier overtime report (second component of CalendarInstructions.tsx)\<close>

text \<open>
  This copy computes the split in the same order as the payroll review screen: no
  Sunday or Saturday case, a Friday end time when configured.
\<close>

definition calculateHoursBreakdown_CalendarInstructions ::
  "settings option \<Rightarrow> Reporte \<Rightarrow> breakdown" where
  "calculateHoursBreakdown_CalendarInstructions sto report =
     (case (hora_inicio report, hora_fin report, fecha_trabajada report, sto) of
        (Some inicio, Some fin, Some fecha, Some st) \<Rightarrow>
          hoursOfSplit (splitMinutes_PayrollReview st inicio fin fecha)
      | _ \<Rightarrow> legacyBreakdown report)"

section \<open>Entry validation (CalendarHoursEntry)\<close>

record Cliente =
  cliente_id :: string
  nombre :: string
  elementoPEP :: string
  areas :: "string list"

record HoursRecord =
  hr_id :: "int option"
  clienteId :: string
  clienteNombre :: string
  hr_horas :: rat
  fecha :: date
  hr_areaCliente :: "string option"

text \<open>
  The state of the entry dialog. The hours-count version of the component reads
  \<open>horas_form\<close> (the text of the number input: \<open>None\<close> when empty, otherwise the decimal
  number written there, which \<^verbatim>\<open>parseFloat\<close> reads as a double); the time-range version reads \<open>horaInicio\<close>, \<open>horaFin\<close> and the
  evidence fields instead.
\<close>

record formState =
  selectedCliente :: string
  areaCliente :: string
  horas_form :: "rat option"
  selectedDate :: "date option"
  horaInicio :: "clock option"
  horaFin :: "clock option"
  descripcion :: string
  tipoActividad :: string
  ubicacion :: "(rat \<times> rat) option"
  ubicacionRechazada :: bool
  firma :: "string option"
  dynamicAreas :: "string list"

record entryProps =
  clientes :: "Cliente list"
  existingRecords :: "HoursRecord list"
  recordToEdit :: "HoursRecord option"
  settings_prop :: "settings option"

text \<open>The arguments handed to \<^verbatim>\<open>onSave\<close> when a submission is accepted.\<close>

record savedEntry =
  sv_clienteId :: string
  sv_horas :: rat
  sv_fecha :: date
  sv_areaCliente :: string
  sv_horaInicio :: "clock option"
  sv_horaFin :: "clock option"
  sv_descripcion :: "string option"
  sv_tipoActividad :: "string option"
  sv_ubicacion :: "(rat \<times> rat) option"
  sv_firma :: "string option"

text \<open>
  Every way \<^verbatim>\<open>handleSubmit\<close> returns without saving. \<open>SilentReturn\<close> is a return that
  sets no message; each other constructor is one message, with the numbers it prints.
\<close>

datatype violation =
    SilentReturn
  | ClienteNoEncontrado
  | DiaCerrado date
  | LimiteDiarioAlcanzado rat rat
      \<comment> \<open>hours already recorded that day, daily limit\<close>
  | LimiteDiarioExcedido rat rat rat rat
      \<comment> \<open>hours requested, hours already recorded, hours still available, daily limit\<close>
  | LimiteSemanalExcedido rat rat rat
      \<comment> \<open>hours requested, hours still available this week, weekly limit\<close>
  | HoraRequerida
  | HoraFinNoPosterior
  | DescripcionObligatoria
  | AreaNoDisponible string
  | UbicacionRequerida
  | FirmaRequerida

definition isSpace :: "char \<Rightarrow> bool" where
  "isSpace c = (c \<in> set [CHR 0x09, CHR 0x0A, CHR 0x0B, CHR 0x0C, CHR 0x0D, CHR 0x20])"

definition trim :: "string \<Rightarrow> string" where
  "trim s = rev (dropWhile isSpace (rev (dropWhile isSpace s)))"

definition WEEKLY_HOURS_LIMIT_DEFAULT :: rat where
  "WEEKLY_HOURS_LIMIT_DEFAULT = 44"

definition DAILY_LIMITS_DEFAULT :: daily_limits where
  "DAILY_LIMITS_DEFAULT =
     \<lparr> monday = Some 9, tuesday = Some 9, wednesday = Some 9, thursday = Some 9,
       friday = Some 8, saturday = Some 0, sunday = Some 0 \<rparr>"

definition activeWeeklyLimit :: "settings option \<Rightarrow> rat" where
  \<comment> \<open>\<^verbatim>\<open>settings?.weekly_limit || WEEKLY_HOURS_LIMIT_DEFAULT\<close>: a limit of 0 is falsy\<close>
  "activeWeeklyLimit sto =
     (case sto of
        None \<Rightarrow> WEEKLY_HOURS_LIMIT_DEFAULT
      | Some st \<Rightarrow>
          (case weekly_limit st of
             None \<Rightarrow> WEEKLY_HOURS_LIMIT_DEFAULT
           | Some w \<Rightarrow> if toDouble w = 0 then WEEKLY_HOURS_LIMIT_DEFAULT else toDouble w))"

definition limitForDay :: "daily_limits \<Rightarrow> int \<Rightarrow> rat option" where
  "limitForDay dl dayOfWeek =
     (if dayOfWeek = 1 then monday dl
      else if dayOfWeek = 2 then tuesday dl
      else if dayOfWeek = 3 then wednesday dl
      else if dayOfWeek = 4 then thursday dl
      else if dayOfWeek = 5 then friday dl
      else if dayOfWeek = 6 then saturday dl
      else if dayOfWeek = 0 then sunday dl
      else None)"

definition activeDailyLimits :: "settings option \<Rightarrow> int \<Rightarrow> rat option" where
  \<comment> \<open>the configured maximum of a day of the week; \<open>None\<close> when the settings carry no number for it\<close>
  "activeDailyLimits sto dayOfWeek =
     (case sto of
        None \<Rightarrow> limitForDay DAILY_LIMITS_DEFAULT dayOfWeek
      | Some st \<Rightarrow>
          (case daily_limits_cfg st of
             None \<Rightarrow> limitForDay DAILY_LIMITS_DEFAULT dayOfWeek
           | Some dl \<Rightarrow> map_option toDouble (limitForDay dl dayOfWeek)))"

definition sumHoras :: "HoursRecord list \<Rightarrow> rat" where
  \<comment> \<open>\<^verbatim>\<open>.reduce((sum, record) => sum + record.horas, 0)\<close>\<close>
  "sumHoras rs = foldl (\<lambda>sum record. fadd sum (toDouble (hr_horas record))) 0 rs"

definition getWeeklyHours :: "HoursRecord list \<Rightarrow> date \<Rightarrow> rat" where
  "getWeeklyHours records d =
     (let weekStart = startOfWeek d; weekEnd = endOfWeek d
      in sumHoras (filter (\<lambda>record. isWithinInterval (fecha record) weekStart weekEnd) records))"

definition getDailyHours :: "HoursRecord list \<Rightarrow> date \<Rightarrow> rat" where
  "getDailyHours records d = sumHoras (filter (\<lambda>record. fecha record = d) records)"

definition editingHours :: "entryProps \<Rightarrow> rat" where
  \<comment> \<open>\<^verbatim>\<open>recordToEdit ? recordToEdit.horas : 0\<close>\<close>
  "editingHours p = (case recordToEdit p of Some r \<Rightarrow> toDouble (hr_horas r) | None \<Rightarrow> 0)"

record weeklyInfo =
  used :: rat
  remaining :: rat

definition weeklyHoursInfo :: "entryProps \<Rightarrow> formState \<Rightarrow> weeklyInfo" where
  "weeklyHoursInfo p f =
     (case selectedDate f of
        None \<Rightarrow> \<lparr> used = 0, remaining = activeWeeklyLimit (settings_prop p) \<rparr>
      | Some d \<Rightarrow>
          (let usedHours = getWeeklyHours (existingRecords p) d;
               adjustedUsed = fsub usedHours (editingHours p)
           in \<lparr> used = adjustedUsed,
                remaining = fsub (activeWeeklyLimit (settings_prop p)) adjustedUsed \<rparr>))"

subsection \<open>The hours-count form, with daily and weekly limits\<close>

definition handleSubmit_hours :: "entryProps \<Rightarrow> formState \<Rightarrow> violation + savedEntry" where
  "handleSubmit_hours p f =
     (if selectedCliente f = [] then Inl SilentReturn
      else if areaCliente f = [] \<or> trim (areaCliente f) = [] then Inl SilentReturn
      else case horas_form f of
        None \<Rightarrow> Inl SilentReturn
      | Some horasTexto \<Rightarrow>
        if toDouble horasTexto \<le> 0 then Inl SilentReturn
        else case selectedDate f of
          None \<Rightarrow> Inl SilentReturn
        | Some d \<Rightarrow>
          (case find (\<lambda>c. elementoPEP c = selectedCliente f) (clientes p) of
             None \<Rightarrow> Inl ClienteNoEncontrado
           | Some selectedCompanyData \<Rightarrow>
             (let horasNumero = toDouble horasTexto;
                  maxPermitido = activeDailyLimits (settings_prop p) (getDay d);
                  horasYaRegistradas = getDailyHours (existingRecords p) d;
                  horasExistentesAjustadas = fsub horasYaRegistradas (editingHours p);
                  totalHorasDia = fadd horasExistentesAjustadas horasNumero;
                  weeklyCheck =
                    (if horasNumero > remaining (weeklyHoursInfo p f)
                     then Inl (LimiteSemanalExcedido horasNumero
                                 (remaining (weeklyHoursInfo p f))
                                 (activeWeeklyLimit (settings_prop p)))
                     else Inr \<lparr> sv_clienteId = selectedCliente f, sv_horas = horasNumero,
                                sv_fecha = d, sv_areaCliente = trim (areaCliente f),
                                sv_horaInicio = None, sv_horaFin = None,
                                sv_descripcion = None, sv_tipoActividad = None,
                                sv_ubicacion = None, sv_firma = None \<rparr>)
              in case maxPermitido of
                   None \<Rightarrow> weeklyCheck
                 | Some m \<Rightarrow>
                     if m = 0 then Inl (DiaCerrado d)
                     else if totalHorasDia > m
                     then (let disponibles = fsub m horasExistentesAjustadas
                           in if disponibles \<le> 0
                              then Inl (LimiteDiarioAlcanzado horasExistentesAjustadas m)
                              else Inl (LimiteDiarioExcedido horasNumero
                                          horasExistentesAjustadas disponibles m))
                     else weeklyCheck)))"

subsection \<open>The time-range form, where the limits are no longer enforced\<close>

definition handleSubmit_timeRange :: "entryProps \<Rightarrow> formState \<Rightarrow> violation + savedEntry" where
  "handleSubmit_timeRange p f =
     (if selectedCliente f = [] then Inl SilentReturn
      else if areaCliente f = [] \<or> trim (areaCliente f) = [] then Inl SilentReturn
      else case (horaInicio f, horaFin f) of
        (Some inicio, Some fin) \<Rightarrow>
          (case selectedDate f of
             None \<Rightarrow> Inl SilentReturn
           | Some d \<Rightarrow>
             (case find (\<lambda>c. elementoPEP c = selectedCliente f) (clientes p) of
                None \<Rightarrow> Inl ClienteNoEncontrado
              | Some selectedCompanyData \<Rightarrow>
                (let inicioMinutos = int (hh inicio) * 60 + int (mm inicio);
                     finMinutos = int (hh fin) * 60 + int (mm fin);
                     horasCalculadas = rat_of_int (finMinutos - inicioMinutos) / 60;
                     clienteAreas = (if length (dynamicAreas f) > 0 then dynamicAreas f
                                     else areas selectedCompanyData)
                 in if horasCalculadas \<le> 0 then Inl HoraFinNoPosterior
                    else if descripcion f = [] \<or> trim (descripcion f) = []
                    then Inl DescripcionObligatoria
                    else if trim (areaCliente f) \<notin> set clienteAreas
                    then Inl (AreaNoDisponible (areaCliente f))
                    else if tipoActividad f = ''En Cliente''
                            \<and> ubicacion f = None \<and> \<not> ubicacionRechazada f
                    then Inl UbicacionRequerida
                    else if tipoActividad f = ''En Cliente''
                            \<and> (firma f = None \<or> firma f = Some [])
                    then Inl FirmaRequerida
                    else Inr \<lparr> sv_clienteId = selectedCliente f, sv_horas = horasCalculadas,
                               sv_fecha = d, sv_areaCliente = trim (areaCliente f),
                               sv_horaInicio = Some inicio, sv_horaFin = Some fin,
                               sv_descripcion = Some (descripcion f),
                               sv_tipoActividad = Some (tipoActividad f),
                               sv_ubicacion = ubicacion f,
                               sv_firma = (if firma f = Some [] then None else firma f) \<rparr>)))
      | _ \<Rightarrow> Inl HoraRequerida)"


subsection \<open>The limits as the specification words them\<close>

text \<open>
  The specification speaks of the recorded entries excluding the entry being edited, and
  of the sum of their hours on a day and in a Monday to Sunday week. \<open>recordedOthers\<close>
  are the recorded entries without the entry being edited, \<open>hoursOnDay\<close> and
  \<open>hoursInWeek\<close> are sums of numbers, not of doubles. \<open>quarterHourRecords\<close> are records
  whose hours, and the sum of whose hours, are \<open>quarterHours\<close>.

  The form subtracts the hours of \<^verbatim>\<open>recordToEdit\<close> from the totals of the selected day and
  of its week, wherever that entry lies. The Cancel button of the dialog closes it and
  leaves \<^verbatim>\<open>recordToEdit\<close> set, so the dialog can be opened on another day with the entry
  of the abandoned edit still there. \<open>editedOnDay\<close> and \<open>editedInWeek\<close> say that this is
  not so: no entry is being edited, or the one being edited is a recorded entry of the
  selected day, or of its week.
\<close>

definition recordedOthers :: "entryProps \<Rightarrow> HoursRecord list" where
  "recordedOthers p =
     (case recordToEdit p of
        None \<Rightarrow> existingRecords p
      | Some e \<Rightarrow> remove1 e (existingRecords p))"

definition hoursOnDay :: "HoursRecord list \<Rightarrow> date \<Rightarrow> rat" where
  "hoursOnDay records d =
     sum_list (map hr_horas (filter (\<lambda>record. fecha record = d) records))"

definition hoursInWeek :: "HoursRecord list \<Rightarrow> date \<Rightarrow> rat" where
  "hoursInWeek records d =
     sum_list (map hr_horas
       (filter (\<lambda>record. isWithinInterval (fecha record) (startOfWeek d) (endOfWeek d))
          records))"

definition quarterHourRecords :: "HoursRecord list \<Rightarrow> bool" where
  "quarterHourRecords records =
     (list_all (\<lambda>record. quarterHours (hr_horas record)) records
      \<and> sum_list (map hr_horas records) \<le> maxExactHours)"

definition editedOnDay :: "entryProps \<Rightarrow> date \<Rightarrow> bool" where
  "editedOnDay p d =
     (case recordToEdit p of
        None \<Rightarrow> True
      | Some e \<Rightarrow> e \<in> set (existingRecords p) \<and> fecha e = d)"

definition editedInWeek :: "entryProps \<Rightarrow> date \<Rightarrow> bool" where
  "editedInWeek p d =
     (case recordToEdit p of
        None \<Rightarrow> True
      | Some e \<Rightarrow> e \<in> set (existingRecords p)
                  \<and> isWithinInterval (fecha e) (startOfWeek d) (endOfWeek d))"

section \<open>Review and approval (PayrollReview)\<close>

definition getReportsForDate :: "Reporte list \<Rightarrow> date \<Rightarrow> Reporte list" where
  "getReportsForDate reports d =
     filter (\<lambda>r. case fecha_trabajada r of None \<Rightarrow> False
                                         | Some reportDate \<Rightarrow> isSameDay reportDate d) reports"

text \<open>
  \<^verbatim>\<open>reportesAPI.update(id, { aprobado, aprobadopor })\<close> followed by \<^verbatim>\<open>fetchReports()\<close>:
  the store patches the report with that identifier, and the component reads the
  reports back. The store itself is outside the repository; a request that fails is
  not modelled.
\<close>

definition updateReport :: "int \<Rightarrow> int \<Rightarrow> int \<Rightarrow> Reporte list \<Rightarrow> Reporte list" where
  "updateReport rid newStatus coordinatorId reports =
     map (\<lambda>r. if report_id r = rid
               then r\<lparr> aprobado := Some newStatus, aprobadopor := Some coordinatorId \<rparr>
               else r) reports"

definition updateAll :: "Reporte list \<Rightarrow> int \<Rightarrow> int \<Rightarrow> Reporte list \<Rightarrow> Reporte list" where
  \<comment> \<open>\<^verbatim>\<open>Promise.all(pending.map(report => reportesAPI.update(report.id, ...)))\<close>\<close>
  "updateAll pendingReports newStatus coordinatorId reports =
     foldl (\<lambda>rs report. updateReport (report_id report) newStatus coordinatorId rs)
       reports pendingReports"

definition handleBulkApproval :: "Reporte list \<Rightarrow> date \<Rightarrow> int \<Rightarrow> int \<Rightarrow> Reporte list" where
  "handleBulkApproval reports d newStatus coordinatorId =
     (let dayReports = getReportsForDate reports d;
          pendingReports = filter (\<lambda>r. aprobado r \<noteq> Some 1 \<and> aprobado r \<noteq> Some 2) dayReports
      in if length pendingReports = 0 then reports
         else updateAll pendingReports newStatus coordinatorId reports)"

definition getPendingCountForDate :: "Reporte list \<Rightarrow> date \<Rightarrow> nat" where
  "getPendingCountForDate reports d =
     length (filter (\<lambda>r. aprobado r \<noteq> Some 1 \<and> aprobado r \<noteq> Some 2)
               (getReportsForDate reports d))"

definition handleBulkWeekApproval ::
  "Reporte list \<Rightarrow> date \<Rightarrow> date \<Rightarrow> int \<Rightarrow> int \<Rightarrow> Reporte list" where
  "handleBulkWeekApproval reports weekStart weekEnd newStatus coordinatorId =
     (let pendingReportsInWeek =
            filter (\<lambda>report.
                      case fecha_trabajada report of
                        None \<Rightarrow> False
                      | Some reportDate \<Rightarrow>
                          if aprobado report = Some 1 \<or> aprobado report = Some 2 then False
                          else isWithinInterval reportDate weekStart weekEnd) reports
      in if length pendingReportsInWeek = 0 then reports
         else updateAll pendingReportsInWeek newStatus coordinatorId reports)"

text \<open>
  The patch both bulk handlers send, and the reports each of them selects: a report
  counts as pending there when its status is neither 1 nor 2.
\<close>

definition patchStatus :: "int \<Rightarrow> int \<Rightarrow> Reporte \<Rightarrow> Reporte" where
  "patchStatus newStatus coordinatorId r =
     r\<lparr> aprobado := Some newStatus, aprobadopor := Some coordinatorId \<rparr>"

definition pendingOn :: "date \<Rightarrow> Reporte \<Rightarrow> bool" where
  "pendingOn d r = (fecha_trabajada r = Some d \<and> aprobado r \<noteq> Some 1 \<and> aprobado r \<noteq> Some 2)"

definition pendingWithin :: "date \<Rightarrow> date \<Rightarrow> Reporte \<Rightarrow> bool" where
  "pendingWithin a b r =
     (case fecha_trabajada r of None \<Rightarrow> False
      | Some d \<Rightarrow> aprobado r \<noteq> Some 1 \<and> aprobado r \<noteq> Some 2 \<and> a \<le> d \<and> d \<le> b)"

subsection \<open>The buttons of a single report\<close>

datatype action = AprobarTodo | AprobarSinExtras | RechazarTodo

fun statusOf :: "action \<Rightarrow> int" where
  "statusOf AprobarTodo = 1"
| "statusOf AprobarSinExtras = 3"
| "statusOf RechazarTodo = 2"

definition availableActions :: "settings option \<Rightarrow> Reporte \<Rightarrow> action list" where
  \<comment> \<open>a report with status 1, 2 or 3 shows a badge; any other shows the buttons\<close>
  "availableActions sto report =
     (let bd = calculateHoursBreakdown_PayrollReview sto report;
          hasExtras = (extra bd > 0)
      in if aprobado report = Some 1 then []
         else if aprobado report = Some 2 then []
         else if aprobado report = Some 3 then []
         else [AprobarTodo] @ (if hasExtras then [AprobarSinExtras] else []) @ [RechazarTodo])"

text \<open>
  One step of the review screen on the list of reports: a button of a displayed report,
  or one of the bulk handlers, which the screen calls with status 1 or 2 only.
\<close>

inductive reviewStep :: "settings option \<Rightarrow> int \<Rightarrow> Reporte list \<Rightarrow> Reporte list \<Rightarrow> bool"
  for sto :: "settings option" and coordinatorId :: int where
  button:
    "report \<in> set reports \<Longrightarrow> a \<in> set (availableActions sto report) \<Longrightarrow>
     reviewStep sto coordinatorId reports
       (updateReport (report_id report) (statusOf a) coordinatorId reports)"
| bulkDay:
    "newStatus = 1 \<or> newStatus = 2 \<Longrightarrow>
     reviewStep sto coordinatorId reports
       (handleBulkApproval reports d newStatus coordinatorId)"
| bulkWeek:
    "newStatus = 1 \<or> newStatus = 2 \<Longrightarrow>
     reviewStep sto coordinatorId reports
       (handleBulkWeekApproval reports weekStart weekEnd newStatus coordinatorId)"

subsection \<open>Weekly totals\<close>

record clientData =
  c_total :: rat
  c_approved :: rat
  c_pending :: rat
  c_rejected :: rat
  c_name :: string

record WeekData =
  weekStart :: date
  weekEnd :: date
  totalHours :: rat
  approved :: rat
  pending :: rat
  rejected :: rat
  extraHours :: rat
  byClient :: "(string \<times> clientData) list"

text \<open>
  The two \<^verbatim>\<open>Map\<close>s of \<^verbatim>\<open>weeklyTotals\<close> are association lists in insertion order:
  \<open>AList.update\<close> replaces the value of a key in place and appends a new key at the end.
  The week key is the \<^verbatim>\<open>'yyyy-MM-dd'\<close> text of the week's Monday, that is, the Monday.
\<close>

definition addToClient :: "settings option \<Rightarrow> Reporte \<Rightarrow> string \<Rightarrow> clientData \<Rightarrow> clientData" where
  "addToClient sto report clientName clientData0 =
     (let clientData1 =
            clientData0\<lparr> c_total := fadd (c_total clientData0) (toDouble (horas report)) \<rparr>
      in if aprobado report = Some 1
         then clientData1\<lparr> c_approved :=
                fadd (c_approved clientData1) (toDouble (horas report)) \<rparr>
         else if aprobado report = Some 2
         then clientData1\<lparr> c_rejected :=
                fadd (c_rejected clientData1) (toDouble (horas report)) \<rparr>
         else if aprobado report = Some 3
         then (let bd = calculateHoursBreakdown_PayrollReview sto report
               in clientData1\<lparr> c_approved :=
                                  fadd (c_approved clientData1) (toDouble (normal bd)),
                                c_rejected :=
                                  fadd (c_rejected clientData1) (toDouble (extra bd)) \<rparr>)
         else clientData1\<lparr> c_pending :=
                fadd (c_pending clientData1) (toDouble (horas report)) \<rparr>)"

definition addToWeek :: "settings option \<Rightarrow> Reporte \<Rightarrow> WeekData \<Rightarrow> WeekData" where
  "addToWeek sto report week0 =
     (let clientKey = (if cliente report = [] then ''Sin Cliente'' else cliente report);
          clientName = (case nombre_company report of
                          None \<Rightarrow> clientKey
                        | Some n \<Rightarrow> if n = [] then clientKey else n);
          breakdown = calculateHoursBreakdown_PayrollReview sto report;
          week1 = week0\<lparr> extraHours := fadd (extraHours week0) (toDouble (extra breakdown)) \<rparr>;
          week2 = week1\<lparr> totalHours := fadd (totalHours week1) (toDouble (horas report)) \<rparr>;
          week3 =
            (if aprobado report = Some 1
             then week2\<lparr> approved := fadd (approved week2) (toDouble (horas report)) \<rparr>
             else if aprobado report = Some 2
             then week2\<lparr> rejected := fadd (rejected week2) (toDouble (horas report)) \<rparr>
             else if aprobado report = Some 3
             then (let bd = calculateHoursBreakdown_PayrollReview sto report
                   in week2\<lparr> approved := fadd (approved week2) (toDouble (normal bd)),
                              rejected := fadd (rejected week2) (toDouble (extra bd)) \<rparr>)
             else week2\<lparr> pending := fadd (pending week2) (toDouble (horas report)) \<rparr>);
          clientData0 =
            (case map_of (byClient week3) clientKey of
               Some cd \<Rightarrow> cd
             | None \<Rightarrow> \<lparr> c_total = 0, c_approved = 0, c_pending = 0, c_rejected = 0,
                          c_name = clientName \<rparr>)
      in week3\<lparr> byClient :=
                  AList.update clientKey (addToClient sto report clientName clientData0)
                    (byClient week3) \<rparr>)"

definition addReport ::
  "settings option \<Rightarrow> (date \<times> WeekData) list \<Rightarrow> Reporte \<Rightarrow> (date \<times> WeekData) list" where
  "addReport sto weeks report =
     (case fecha_trabajada report of
        None \<Rightarrow> weeks
      | Some reportDate \<Rightarrow>
          (let weekKey = startOfWeek reportDate;
               week0 =
                 (case map_of weeks weekKey of
                    Some w \<Rightarrow> w
                  | None \<Rightarrow> \<lparr> weekStart = startOfWeek reportDate,
                               weekEnd = endOfWeek reportDate,
                               totalHours = 0, approved = 0, pending = 0, rejected = 0,
                               extraHours = 0, byClient = [] \<rparr>)
           in AList.update weekKey (addToWeek sto report week0) weeks))"

definition weeklyTotals ::
  "settings option \<Rightarrow> Reporte list \<Rightarrow> date \<Rightarrow> date \<Rightarrow> WeekData list" where
  "weeklyTotals sto reports monthStart monthEnd =
     sort_key weekStart
       (filter (\<lambda>week. isWithinInterval (weekStart week) monthStart monthEnd
                     \<or> isWithinInterval (weekEnd week) monthStart monthEnd)
          (map snd (foldl (addReport sto) [] reports)))"

text \<open>
  What one report adds to the buckets of its week as the specification words it: an
  approved report adds its hours to the approved hours, a rejected one to the rejected
  hours, a report approved without overtime adds its normal hours to the approved and
  its overtime to the rejected hours, and any other report adds its hours to the pending
  hours. \<open>weekKey\<close> is the Monday of a report's week, \<open>weekField\<close> reads a total of a
  week in the map, 0 when the week is not there. \<open>addsToApproved\<close>, \<open>addsToRejected\<close>
  and \<open>addsToPending\<close> are the reports that add to a bucket at all.
  \<open>quarterHourReports\<close> are reports whose hours, and the sum of whose hours, are
  \<open>quarterHours\<close>.
\<close>

definition weekKey :: "Reporte \<Rightarrow> date option" where
  "weekKey r = map_option startOfWeek (fecha_trabajada r)"









section \<open>Concrete reports and forms\<close>

text \<open>
  Day 19723 is Monday 2024-01-01, day 19724 the Tuesday after it, day 19727 the Friday,
  day 19728 Saturday 2024-01-06 and day 19729 Sunday 2024-01-07; day 19716 is Monday
  2023-12-25, a week earlier.
\<close>

definition emptySettings :: settings where
  "emptySettings = \<lparr> normal_hours_start = None, normal_hours_end = None,
     normal_hours_end_friday = None, saturday_hours_start = None, saturday_hours_end = None,
     weekly_limit = None, daily_limits_cfg = None \<rparr>"

definition sundayReport :: Reporte where
  "sundayReport = \<lparr> report_id = 7, horas = 4, fecha_trabajada = Some 19729, cliente = ''C-01'',
     nombre_company = None, documento_id = 1001, aprobado = Some 0, aprobadopor = None,
     hora_inicio = Some (Clock 8 0), hora_fin = Some (Clock 12 0) \<rparr>"

definition legacyReport :: Reporte where
  "legacyReport = \<lparr> report_id = 8, horas = 13/2, fecha_trabajada = Some 19724, cliente = ''C-01'',
     nombre_company = None, documento_id = 1001, aprobado = Some 0, aprobadopor = None,
     hora_inicio = None, hora_fin = None \<rparr>"

definition tuesdayReport :: Reporte where
  "tuesdayReport = \<lparr> report_id = 9, horas = 11, fecha_trabajada = Some 19724, cliente = ''C-01'',
     nombre_company = None, documento_id = 1001, aprobado = Some 0, aprobadopor = None,
     hora_inicio = Some (Clock 7 0), hora_fin = Some (Clock 18 0) \<rparr>"

definition clientes0 :: "Cliente list" where
  "clientes0 = [\<lparr> cliente_id = ''1'', nombre = ''Acme'', elementoPEP = ''PEP-01'',
                   areas = [''Planta''] \<rparr>]"

definition mkRecord :: "int \<Rightarrow> rat \<Rightarrow> date \<Rightarrow> HoursRecord" where
  "mkRecord i h d = \<lparr> hr_id = Some i, clienteId = ''PEP-01'', clienteNombre = ''Acme'',
                      hr_horas = h, fecha = d, hr_areaCliente = Some ''Planta'' \<rparr>"

definition props0 :: entryProps where
  "props0 = \<lparr> clientes = clientes0, existingRecords = [], recordToEdit = None,
              settings_prop = None \<rparr>"

definition onSiteForm :: formState where
  "onSiteForm = \<lparr> selectedCliente = ''PEP-01'', areaCliente = ''Planta'', horas_form = None,
     selectedDate = Some 19724, horaInicio = Some (Clock 7 30), horaFin = Some (Clock 17 30),
     descripcion = ''Mantenimiento'', tipoActividad = ''En Cliente'', ubicacion = None,
     ubicacionRechazada = True, firma = Some ''data:image/png;base64,iVBORw0KGgo='',
     dynamicAreas = [] \<rparr>"

definition noFirmaForm :: formState where
  "noFirmaForm = \<lparr> selectedCliente = ''PEP-01'', areaCliente = ''Planta'', horas_form = None,
     selectedDate = Some 19724, horaInicio = Some (Clock 7 30), horaFin = Some (Clock 17 30),
     descripcion = ''Mantenimiento'', tipoActividad = ''En Cliente'',
     ubicacion = Some (23/5, -74), ubicacionRechazada = False, firma = None,
     dynamicAreas = [] \<rparr>"

definition weekRecords :: "HoursRecord list" where
  "weekRecords = [mkRecord 1 9 19723, mkRecord 2 9 19724, mkRecord 3 9 19725, mkRecord 4 9 19726]"

definition limit40 :: settings where
  "limit40 = \<lparr> normal_hours_start = None, normal_hours_end = None,
     normal_hours_end_friday = None, saturday_hours_start = None, saturday_hours_end = None,
     weekly_limit = Some 40, daily_limits_cfg = None \<rparr>"

definition weekProps :: entryProps where
  "weekProps = \<lparr> clientes = clientes0, existingRecords = weekRecords, recordToEdit = None,
                 settings_prop = Some limit40 \<rparr>"

definition hoursForm :: "rat \<Rightarrow> date \<Rightarrow> formState" where
  "hoursForm h d = \<lparr> selectedCliente = ''PEP-01'', areaCliente = ''Planta'',
     horas_form = Some h, selectedDate = Some d, horaInicio = None, horaFin = None,
     descripcion = [], tipoActividad = ''En Oficina'', ubicacion = None,
     ubicacionRechazada = False, firma = None, dynamicAreas = [] \<rparr>"

definition timeForm :: "clock \<Rightarrow> clock \<Rightarrow> date \<Rightarrow> formState" where
  "timeForm a b d = \<lparr> selectedCliente = ''PEP-01'', areaCliente = ''Planta'',
     horas_form = None, selectedDate = Some d, horaInicio = Some a, horaFin = Some b,
     descripcion = ''Mantenimiento'', tipoActividad = ''En Oficina'', ubicacion = None,
     ubicacionRechazada = False, firma = None, dynamicAreas = [] \<rparr>"



definition editProps :: entryProps where
  "editProps = \<lparr> clientes = clientes0,
                 existingRecords = [mkRecord 1 5 19724, mkRecord 2 4 19724],
                 recordToEdit = Some (mkRecord 1 5 19724), settings_prop = None \<rparr>"

definition duskReport :: Reporte where
  "duskReport = \<lparr> report_id = 10, horas = 33/100, fecha_trabajada = Some 19724,
     cliente = ''C-01'', nombre_company = None, documento_id = 1001, aprobado = Some 0,
     aprobadopor = None, hora_inicio = Some (Clock 17 20), hora_fin = Some (Clock 17 40) \<rparr>"

definition fullWeekRecords :: "HoursRecord list" where
  "fullWeekRecords = [mkRecord 1 9 19723, mkRecord 2 9 19724, mkRecord 3 9 19725,
                      mkRecord 4 9 19726, mkRecord 5 8 19727]"

definition abandonedEditProps :: entryProps where
  \<comment> \<open>the entry of Monday 2023-12-25 is still being edited\<close>
  "abandonedEditProps = \<lparr> clientes = clientes0,
     existingRecords = mkRecord 9 9 19716 # fullWeekRecords,
     recordToEdit = Some (mkRecord 9 9 19716), settings_prop = None \<rparr>"

definition tenthsWeekProps :: entryProps where
  "tenthsWeekProps = \<lparr> clientes = clientes0,
     existingRecords = weekRecords @ [mkRecord 5 (1/10) 19727, mkRecord 6 (2/10) 19727],
     recordToEdit = None, settings_prop = Some limit40 \<rparr>"



definition tenthsEditProps :: entryProps where
  "tenthsEditProps = \<lparr> clientes = clientes0,
     existingRecords = [mkRecord 1 8 19724, mkRecord 2 (3/10) 19724,
                        mkRecord 3 (3/10) 19724, mkRecord 4 (4/10) 19724],
     recordToEdit = Some (mkRecord 1 8 19724), settings_prop = None \<rparr>"




definition partialReport :: Reporte where
  "partialReport = \<lparr> report_id = 21, horas = 11, fecha_trabajada = Some 19724,
     cliente = ''C-01'', nombre_company = None, documento_id = 1001, aprobado = Some 3,
     aprobadopor = Some 55, hora_inicio = Some (Clock 7 0), hora_fin = Some (Clock 18 0) \<rparr>"

definition pendingReport :: Reporte where
  "pendingReport = \<lparr> report_id = 22, horas = 4, fecha_trabajada = Some 19724,
     cliente = ''C-01'', nombre_company = None, documento_id = 1002, aprobado = Some 0,
     aprobadopor = None, hora_inicio = None, hora_fin = None \<rparr>"

definition rejectedReport :: Reporte where
  "rejectedReport = \<lparr> report_id = 23, horas = 2, fecha_trabajada = Some 19725,
     cliente = ''C-02'', nombre_company = Some ''Beta'', documento_id = 1002,
     aprobado = Some 2, aprobadopor = Some 55, hora_inicio = None, hora_fin = None \<rparr>"

definition approvedReport :: Reporte where
  "approvedReport = \<lparr> report_id = 24, horas = 8, fecha_trabajada = Some 19723,
     cliente = ''C-01'', nombre_company = None, documento_id = 1002,
     aprobado = Some 1, aprobadopor = Some 55, hora_inicio = None, hora_fin = None \<rparr>"


section \<open>Properties of the splitter\<close>

lemma timeToMinutes_range:
  "validClock c \<Longrightarrow> 0 \<le> timeToMinutes (Some c) \<and> timeToMinutes (Some c) < 1440"
  by (cases c) (simp add: validClock_def timeToMinutes_def)

lemma split_PayrollReview_sound:
  assumes "validClock inicio" "validClock fin"
  shows "normalMinutes (splitMinutes_PayrollReview st inicio fin dia)
           + extraMinutes (splitMinutes_PayrollReview st inicio fin dia)
           = totalMinutes (splitMinutes_PayrollReview st inicio fin dia)
         \<and> 0 \<le> normalMinutes (splitMinutes_PayrollReview st inicio fin dia)
         \<and> 0 \<le> extraMinutes (splitMinutes_PayrollReview st inicio fin dia)"
  using timeToMinutes_range[OF assms(1)] timeToMinutes_range[OF assms(2)]
  by (auto simp: splitMinutes_PayrollReview_def Let_def max_def min_def)

lemma split_OvertimeReport_sound:
  assumes "validClock inicio" "validClock fin"
  shows "normalMinutes (splitMinutes_OvertimeReport st inicio fin dia)
           + extraMinutes (splitMinutes_OvertimeReport st inicio fin dia)
           = totalMinutes (splitMinutes_OvertimeReport st inicio fin dia)
         \<and> 0 \<le> normalMinutes (splitMinutes_OvertimeReport st inicio fin dia)
         \<and> 0 \<le> extraMinutes (splitMinutes_OvertimeReport st inicio fin dia)"
  using timeToMinutes_range[OF assms(1)] timeToMinutes_range[OF assms(2)]
  by (auto simp: splitMinutes_OvertimeReport_def Let_def max_def min_def)

text \<open>
  C3, as the claim states it, fails on the split that is returned: each of the three
  values is rounded to hundredths of an hour at the return. For the report of Tuesday
  17:20 to 17:40 under the default schedule, ten normal and ten overtime minutes of
  twenty, both splitters return 0.17 normal hours, 0.17 hours of overtime and a total of
  0.33 hours.
\<close>

theorem split_hours_not_conserved:
  "calculateHoursBreakdown_PayrollReview (Some emptySettings) duskReport
     = \<lparr> normal = 17/100, extra = 17/100, total = 33/100 \<rparr>
   \<and> calculateHoursBreakdown_OvertimeReport (Some emptySettings) duskReport
     = \<lparr> normal = 17/100, extra = 17/100, total = 33/100 \<rparr>
   \<and> normal (calculateHoursBreakdown_PayrollReview (Some emptySettings) duskReport)
       + extra (calculateHoursBreakdown_PayrollReview (Some emptySettings) duskReport)
     \<noteq> total (calculateHoursBreakdown_PayrollReview (Some emptySettings) duskReport)
   \<and> normal (calculateHoursBreakdown_OvertimeReport (Some emptySettings) duskReport)
       + extra (calculateHoursBreakdown_OvertimeReport (Some emptySettings) duskReport)
     \<noteq> total (calculateHoursBreakdown_OvertimeReport (Some emptySettings) duskReport)"
  by code_simp

text \<open>
  C3, amended: for a report with a start time, an end time and a work date, both of them
  valid times of day, and with the settings loaded, the minute counts the splitter
  computes before it rounds them to hours satisfy: normal minutes plus overtime minutes
  are the total minutes, and normal and overtime minutes are not negative; the split
  that is returned is the rounding of these three counts to hundredths of an hour. This
  holds for the splitter of the monthly overtime report and for the one of the payroll
  review screen, whatever the schedule says.
\<close>

theorem split_minutes_conserved:
  assumes "hora_inicio report = Some inicio" and "hora_fin report = Some fin"
    and "fecha_trabajada report = Some dia"
    and "validClock inicio" and "validClock fin"
  shows "calculateHoursBreakdown_OvertimeReport (Some st) report
           = hoursOfSplit (splitMinutes_OvertimeReport st inicio fin dia)
       \<and> (let m = splitMinutes_OvertimeReport st inicio fin dia
          in normalMinutes m + extraMinutes m = totalMinutes m
             \<and> 0 \<le> normalMinutes m \<and> 0 \<le> extraMinutes m)
       \<and> calculateHoursBreakdown_PayrollReview (Some st) report
           = hoursOfSplit (splitMinutes_PayrollReview st inicio fin dia)
       \<and> (let m = splitMinutes_PayrollReview st inicio fin dia
          in normalMinutes m + extraMinutes m = totalMinutes m
             \<and> 0 \<le> normalMinutes m \<and> 0 \<le> extraMinutes m)"
proof -
  have "calculateHoursBreakdown_OvertimeReport (Some st) report
           = hoursOfSplit (splitMinutes_OvertimeReport st inicio fin dia)"
    using assms(1-3) by (simp add: calculateHoursBreakdown_OvertimeReport_def)
  moreover have "calculateHoursBreakdown_PayrollReview (Some st) report
           = hoursOfSplit (splitMinutes_PayrollReview st inicio fin dia)"
    using assms(1-3) by (simp add: calculateHoursBreakdown_PayrollReview_def)
  ultimately show ?thesis
    unfolding Let_def
    using split_OvertimeReport_sound[OF assms(4,5)] split_PayrollReview_sound[OF assms(4,5)]
    by blast
qed

theorem split_minutes_conserved_witness:
  "splitMinutes_OvertimeReport emptySettings (Clock 7 0) (Clock 18 0) 19724
       = \<lparr> normalMinutes = 600, extraMinutes = 60, totalMinutes = 660 \<rparr>
   \<and> calculateHoursBreakdown_OvertimeReport (Some emptySettings) tuesdayReport
       = hoursOfSplit (splitMinutes_OvertimeReport emptySettings (Clock 7 0) (Clock 18 0) 19724)
   \<and> (let m = splitMinutes_OvertimeReport emptySettings (Clock 7 0) (Clock 18 0) 19724
      in normalMinutes m + extraMinutes m = totalMinutes m
         \<and> 0 \<le> normalMinutes m \<and> 0 \<le> extraMinutes m)
   \<and> (let m = splitMinutes_PayrollReview emptySettings (Clock 7 0) (Clock 18 0) 19724
      in normalMinutes m + extraMinutes m = totalMinutes m
         \<and> 0 \<le> normalMinutes m \<and> 0 \<le> extraMinutes m)"
proof -
  have a: "validClock (Clock 7 0)" and b: "validClock (Clock 18 0)"
    by (simp_all add: validClock_def)
  have h: "hora_inicio tuesdayReport = Some (Clock 7 0)" "hora_fin tuesdayReport = Some (Clock 18 0)"
    "fecha_trabajada tuesdayReport = Some 19724"
    by (simp_all add: tuesdayReport_def)
  have c: "splitMinutes_OvertimeReport emptySettings (Clock 7 0) (Clock 18 0) 19724
       = \<lparr> normalMinutes = 600, extraMinutes = 60, totalMinutes = 660 \<rparr>"
    by (simp add: splitMinutes_OvertimeReport_def emptySettings_def getDay_def timeToMinutes_def)
  show ?thesis
    using c split_minutes_conserved [OF h a b, of emptySettings] by simp
qed

text \<open>
  C10: a report without a start time, without an end time or without a work date, and
  any report while the settings are not loaded, is returned with its stored hours as
  normal hours and as total, and no overtime. The three copies of the splitter agree.
\<close>

theorem legacy_breakdown:
  assumes "hora_inicio report = None \<or> hora_fin report = None
           \<or> fecha_trabajada report = None \<or> sto = None"
  shows "calculateHoursBreakdown_OvertimeReport sto report
           = \<lparr> normal = horas report, extra = 0, total = horas report \<rparr>
       \<and> calculateHoursBreakdown_PayrollReview sto report
           = \<lparr> normal = horas report, extra = 0, total = horas report \<rparr>
       \<and> calculateHoursBreakdown_CalendarInstructions sto report
           = \<lparr> normal = horas report, extra = 0, total = horas report \<rparr>"
  using assms
  by (auto simp: calculateHoursBreakdown_OvertimeReport_def
      calculateHoursBreakdown_PayrollReview_def
      calculateHoursBreakdown_CalendarInstructions_def legacyBreakdown_def
      split: option.splits)

theorem legacy_breakdown_witness:
  "(hora_inicio legacyReport = None \<or> hora_fin legacyReport = None
      \<or> fecha_trabajada legacyReport = None \<or> Some emptySettings = None)
   \<and> calculateHoursBreakdown_OvertimeReport (Some emptySettings) legacyReport
        = \<lparr> normal = 13/2, extra = 0, total = 13/2 \<rparr>
   \<and> calculateHoursBreakdown_PayrollReview (Some emptySettings) legacyReport
        = \<lparr> normal = 13/2, extra = 0, total = 13/2 \<rparr>
   \<and> calculateHoursBreakdown_CalendarInstructions (Some emptySettings) legacyReport
        = \<lparr> normal = 13/2, extra = 0, total = 13/2 \<rparr>"
proof -
  have h: "hora_inicio legacyReport = None \<or> hora_fin legacyReport = None
      \<or> fecha_trabajada legacyReport = None \<or> Some emptySettings = None"
    by (simp add: legacyReport_def)
  have "horas legacyReport = 13/2" by (simp add: legacyReport_def)
  with h legacy_breakdown [OF h] show ?thesis by simp
qed

text \<open>
  On a Sunday the splitter of the monthly overtime report counts no normal minutes and
  all worked minutes as overtime.
\<close>

lemma sunday_OvertimeReport:
  assumes "getDay dia = 0"
  shows "normalMinutes (splitMinutes_OvertimeReport st inicio fin dia) = 0
       \<and> extraMinutes (splitMinutes_OvertimeReport st inicio fin dia)
           = totalMinutes (splitMinutes_OvertimeReport st inicio fin dia)"
  using assms by (simp add: splitMinutes_OvertimeReport_def Let_def)

lemma toFixed2_0: "toFixed2 0 = 0"
  by (simp add: toFixed2_def)

lemma sunday_OvertimeReport_hours:
  assumes "hora_inicio report = Some inicio" and "hora_fin report = Some fin"
    and "fecha_trabajada report = Some dia" and "getDay dia = 0"
  shows "normal (calculateHoursBreakdown_OvertimeReport (Some st) report) = 0
       \<and> extra (calculateHoursBreakdown_OvertimeReport (Some st) report)
           = total (calculateHoursBreakdown_OvertimeReport (Some st) report)"
  using assms sunday_OvertimeReport [OF assms(4), of st inicio fin]
  by (simp add: calculateHoursBreakdown_OvertimeReport_def hoursOfSplit_def toFixed2_0)

text \<open>
  The two worked examples of the specification, on the splitter of the monthly overtime
  report: Tuesday 07:00 to 18:00 against 07:30 to 17:30, and Saturday 08:00 to 14:00
  against 07:30 to 12:00.
\<close>

lemma splitter_examples:
  "hoursOfSplit (splitMinutes_OvertimeReport emptySettings (Clock 7 0) (Clock 18 0) 19724)
     = \<lparr> normal = 10, extra = 1, total = 11 \<rparr>"
  "hoursOfSplit (splitMinutes_OvertimeReport emptySettings (Clock 8 0) (Clock 14 0) 19728)
     = \<lparr> normal = 4, extra = 2, total = 6 \<rparr>"
  by code_simp+

text \<open>
  C2: the splitter of the payroll review screen has no Sunday case. For the report of
  Sunday 2024-01-07, 08:00 to 12:00, under the default schedule, it returns four normal
  hours and no overtime, where the splitter of the monthly overtime report returns no
  normal hours and four hours of overtime.
\<close>

theorem sunday_PayrollReview_normal:
  "getDay 19729 = 0
   \<and> splitMinutes_PayrollReview emptySettings (Clock 8 0) (Clock 12 0) 19729
       = \<lparr> normalMinutes = 240, extraMinutes = 0, totalMinutes = 240 \<rparr>
   \<and> calculateHoursBreakdown_PayrollReview (Some emptySettings) sundayReport
       = \<lparr> normal = 4, extra = 0, total = 4 \<rparr>
   \<and> calculateHoursBreakdown_OvertimeReport (Some emptySettings) sundayReport
       = \<lparr> normal = 0, extra = 4, total = 4 \<rparr>"
  by code_simp

section \<open>Properties of the double arithmetic\<close>

lemma pow2_int_neg: "z \<le> 0 \<Longrightarrow> (2::rat) powi z = 1 / 2 ^ nat (- z)"
  by (metis add.inverse_inverse neg_0_le_iff_le power_int_minus_divide
    power_int_nonneg_exp)

lemma pow2_le_exp:
  assumes "(2::rat) powi m \<le> 2 ^ 50"
  shows "m \<le> 50"
proof -
  have "(2::rat) powi 50 = 2 ^ 50" by (simp add: power_int_def)
  with assms have a: "(2::rat) powi m \<le> 2 powi 50" by (simp only:)
  have b: "(1::rat) < 2" by simp
  have c: "(0::int) \<le> 50" by simp
  show ?thesis by (rule power_int_le_imp_le_exp [OF b a c])
qed

lemma pow2_diff: "(2::rat) powi (a - b - 1) = 2 powi (a - 1) / 2 powi b"
  by (simp add: power_int_diff)

lemma bitLength_bounds:
  "0 < n \<Longrightarrow> 2 ^ nat (bitLength n - 1) \<le> n \<and> n < 2 ^ nat (bitLength n) \<and> 1 \<le> bitLength n"
proof (induction n rule: bitLength.induct)
  case (1 n)
  show ?case
  proof (cases "n div 2 = 0")
    case True
    with "1.prems" have "n = 1" by presburger
    then show ?thesis by (simp add: bitLength.simps [of 1] bitLength.simps [of 0])
  next
    case False
    with "1.prems" have pos: "0 < n div 2" by presburger
    from "1.IH" [OF _ pos] "1.prems"
    have ih: "2 ^ nat (bitLength (n div 2) - 1) \<le> n div 2"
      "n div 2 < 2 ^ nat (bitLength (n div 2))" "1 \<le> bitLength (n div 2)"
      by simp_all
    have b: "bitLength n = 1 + bitLength (n div 2)"
      using "1.prems" by (subst bitLength.simps) simp
    have n1: "nat (bitLength n - 1) = Suc (nat (bitLength (n div 2) - 1))"
      using ih(3) b by simp
    have n2: "nat (bitLength n) = Suc (nat (bitLength (n div 2)))"
      using ih(3) b by simp
    have "2 * 2 ^ nat (bitLength (n div 2) - 1) \<le> n" using ih(1) by presburger
    moreover have "n < 2 * 2 ^ nat (bitLength (n div 2))" using ih(2) by presburger
    moreover have "1 \<le> bitLength n" using b ih(3) by simp
    ultimately show ?thesis unfolding n1 n2 power_Suc by blast
  qed
qed

text \<open>The power of two found for a positive number is not above it.\<close>

lemma expo2_lower:
  assumes "0 < a"
  shows "2 powi (expo2 a) \<le> a"
proof -
  obtain p q where pq: "quotient_of a = (p, q)" by (cases "quotient_of a")
  then have q: "0 < q" and a: "a = rat_of_int p / rat_of_int q"
    using quotient_of_denom_pos quotient_of_div by blast+
  from assms a q have p: "0 < p" by (simp add: zero_less_divide_iff)
  let ?e0 = "bitLength p - bitLength q"
  show ?thesis
  proof (cases "2 powi ?e0 \<le> a")
    case True
    then show ?thesis by (simp add: expo2_def pq)
  next
    case False
    then have e: "expo2 a = ?e0 - 1" by (simp add: expo2_def pq)
    from bitLength_bounds [OF p]
    have lp: "2 ^ nat (bitLength p - 1) \<le> p" "1 \<le> bitLength p" by blast+
    from bitLength_bounds [OF q]
    have lq: "q < 2 ^ nat (bitLength q)" "1 \<le> bitLength q" by blast+
    have "2 powi (?e0 - 1) = (2::rat) powi (bitLength p - 1) / 2 powi (bitLength q)"
      by (rule pow2_diff)
    also have "\<dots> = 2 ^ nat (bitLength p - 1) / 2 ^ nat (bitLength q)"
      using lp(2) lq(2) by (simp add: power_int_def)
    also have "\<dots> \<le> rat_of_int p / 2 ^ nat (bitLength q)"
    proof -
      have "rat_of_int (2 ^ nat (bitLength p - 1)) \<le> rat_of_int p"
        using lp(1) by (rule of_int_le_iff [THEN iffD2])
      then have "2 ^ nat (bitLength p - 1) \<le> rat_of_int p" by simp
      then show ?thesis by (rule divide_right_mono) simp
    qed
    also have "\<dots> \<le> rat_of_int p / rat_of_int q"
    proof -
      have "rat_of_int q \<le> rat_of_int (2 ^ nat (bitLength q))"
        using lq(1) by (simp only: of_int_le_iff)
      then have "rat_of_int q \<le> 2 ^ nat (bitLength q)" by simp
      moreover have "0 < rat_of_int q" using q by simp
      moreover have "0 \<le> rat_of_int p" using p by simp
      ultimately show ?thesis
        using frac_le [of "rat_of_int p" "rat_of_int p" "rat_of_int q" "2 ^ nat (bitLength q)"]
        by simp
    qed
    finally show ?thesis using e a by simp
  qed
qed

text \<open>And the next power of two is above it.\<close>

lemma expo2_upper:
  assumes "0 < a"
  shows "a < 2 powi (expo2 a + 1)"
proof -
  obtain p q where pq: "quotient_of a = (p, q)" by (cases "quotient_of a")
  then have q: "0 < q" and a: "a = rat_of_int p / rat_of_int q"
    using quotient_of_denom_pos quotient_of_div by blast+
  from assms a q have p: "0 < p" by (simp add: zero_less_divide_iff)
  let ?e0 = "bitLength p - bitLength q"
  show ?thesis
  proof (cases "2 powi ?e0 \<le> a")
    case False
    then show ?thesis by (simp add: expo2_def pq)
  next
    case True
    then have e: "expo2 a = ?e0" by (simp add: expo2_def pq)
    from bitLength_bounds [OF p]
    have lp: "p < 2 ^ nat (bitLength p)" "1 \<le> bitLength p" by blast+
    from bitLength_bounds [OF q]
    have lq: "2 ^ nat (bitLength q - 1) \<le> q" "1 \<le> bitLength q" by blast+
    have "rat_of_int p < rat_of_int (2 ^ nat (bitLength p))"
      using lp(1) by (simp only: of_int_less_iff)
    then have "rat_of_int p < 2 ^ nat (bitLength p)" by simp
    then have "rat_of_int p / rat_of_int q < 2 ^ nat (bitLength p) / rat_of_int q"
      using q by (simp add: divide_strict_right_mono)
    also have "\<dots> \<le> 2 ^ nat (bitLength p) / 2 ^ nat (bitLength q - 1)"
    proof -
      have "rat_of_int (2 ^ nat (bitLength q - 1)) \<le> rat_of_int q"
        using lq(1) by (simp only: of_int_le_iff)
      then have "2 ^ nat (bitLength q - 1) \<le> rat_of_int q" by simp
      then show ?thesis
        using frac_le [of "2 ^ nat (bitLength p)" "2 ^ nat (bitLength p)"
            "2 ^ nat (bitLength q - 1)" "rat_of_int q"]
        by simp
    qed
    also have "\<dots> = (2::rat) powi (bitLength p) / 2 powi (bitLength q - 1)"
      using lp(2) lq(2) by (simp add: power_int_def)
    also have "\<dots> = 2 powi (?e0 + 1)"
      by (simp add: power_int_diff [symmetric] algebra_simps)
    finally show ?thesis using e a by simp
  qed
qed

text \<open>
  The doubles of 0.1, 0.2, 0.3 and 1/3, the sum \<^verbatim>\<open>0.1 + 0.2\<close>, a negative number, and
  two ties: \<open>2^53 + 1\<close> goes down and \<open>2^53 + 3\<close> goes up to the even neighbour.
\<close>

lemma double_examples:
  "toDouble (1/10) = 3602879701896397/36028797018963968"
  "toDouble (2/10) = 3602879701896397/18014398509481984"
  "toDouble (3/10) = 5404319552844595/18014398509481984"
  "toDouble (1/3) = 6004799503160661/18014398509481984"
  "fadd (toDouble (1/10)) (toDouble (2/10)) = 1351079888211149/4503599627370496"
  "toDouble (-(1/10)) = - (3602879701896397/36028797018963968)"
  "toDouble 9007199254740993 = 9007199254740992"
  "toDouble 9007199254740995 = 9007199254740996"
  by code_simp+

lemma roundEven_of_int: "roundEven (rat_of_int n) = n"
  by (simp add: roundEven_def)

text \<open>
  A whole number of quarters below \<open>2^50\<close> has at most 52 binary digits after scaling
  to its unit in the last place, so reading it as a double changes nothing.
\<close>

lemma toDouble_exact:
  assumes "wholeQuarters x" and "\<bar>x\<bar> \<le> 2 ^ 50"
  shows "toDouble x = x"
proof (cases "x = 0")
  case True then show ?thesis by (simp add: toDouble_def)
next
  case False
  then have pos: "0 < \<bar>x\<bar>" by simp
  let ?e = "expo2 \<bar>x\<bar>"
  have "(2::rat) powi ?e \<le> 2 ^ 50"
    using expo2_lower [OF pos] assms(2) by (rule order_trans)
  then have e: "?e \<le> 50" by (rule pow2_le_exp)
  obtain k where k: "4 * x = rat_of_int k" using assms(1) by (auto simp: wholeQuarters_def)
  let ?n = "nat (50 - ?e)"
  let ?u = "(2::rat) powi (?e - 52)"
  have "?u = 1 / 2 ^ nat (- (?e - 52))"
    using e by (intro pow2_int_neg) simp
  moreover have "nat (- (?e - 52)) = Suc (Suc ?n)" using e by simp
  ultimately have u: "?u = 1 / (4 * 2 ^ ?n)" by simp
  have upos: "?u \<noteq> 0" by simp
  have "x / ?u = (4 * x) * 2 ^ ?n" unfolding u by simp
  also have "\<dots> = rat_of_int (k * 2 ^ ?n)" by (simp add: k)
  finally have q: "x / ?u = rat_of_int (k * 2 ^ ?n)" .
  have "toDouble x = rat_of_int (roundEven (x / ?u)) * ?u"
    using False by (simp add: toDouble_def Let_def)
  also have "\<dots> = (x / ?u) * ?u" unfolding q roundEven_of_int ..
  also have "\<dots> = x" using upos by simp
  finally show ?thesis .
qed

lemma wholeQuarters_Ints: "wholeQuarters x \<longleftrightarrow> 4 * x \<in> \<int>"
  unfolding wholeQuarters_def by (metis Ints_of_int of_int_floor)

lemma wholeQuarters_0: "wholeQuarters 0"
  by (simp add: wholeQuarters_def)

lemma wholeQuarters_add: "wholeQuarters x \<Longrightarrow> wholeQuarters y \<Longrightarrow> wholeQuarters (x + y)"
  unfolding wholeQuarters_Ints by (simp add: distrib_left)

lemma wholeQuarters_diff: "wholeQuarters x \<Longrightarrow> wholeQuarters y \<Longrightarrow> wholeQuarters (x - y)"
  unfolding wholeQuarters_Ints by (simp add: right_diff_distrib)

lemma maxExactHours_double: "2 * maxExactHours = 2 ^ 50" "0 \<le> maxExactHours"
  by (simp_all add: maxExactHours_def)

lemma quarterHours_toDouble: "quarterHours x \<Longrightarrow> toDouble x = x"
  using maxExactHours_double by (intro toDouble_exact) (auto simp: quarterHours_def)

lemma fadd_exact:
  assumes "quarterHours a" and "quarterHours b"
  shows "fadd a b = a + b"
  unfolding fadd_def using assms maxExactHours_double
  by (intro toDouble_exact wholeQuarters_add) (auto simp: quarterHours_def)

text \<open>
  The difference of two such numbers is exact as well, whatever its sign.
\<close>

lemma fsub_exact:
  assumes "quarterHours a" and "quarterHours b"
  shows "fsub a b = a - b"
  unfolding fsub_def using assms maxExactHours_double
  by (intro toDouble_exact wholeQuarters_diff) (auto simp: quarterHours_def)

lemma sum_list_quarterHours:
  assumes "list_all quarterHours xs"
  shows "0 \<le> sum_list xs \<and> wholeQuarters (sum_list xs)"
  using assms
  by (induction xs) (auto simp: quarterHours_def wholeQuarters_0 wholeQuarters_add)

lemma foldl_fadd_exact:
  assumes "list_all quarterHours xs" and "quarterHours a"
    and "a + sum_list xs \<le> maxExactHours"
  shows "foldl (\<lambda>sum x. fadd sum (toDouble x)) a xs = a + sum_list xs"
  using assms
proof (induction xs arbitrary: a)
  case Nil then show ?case by simp
next
  case (Cons x xs)
  from Cons.prems(1) have x: "quarterHours x" and xs: "list_all quarterHours xs" by simp_all
  from sum_list_quarterHours [OF xs] have nn: "0 \<le> sum_list xs" by blast
  have s: "fadd a (toDouble x) = a + x"
    using fadd_exact [OF Cons.prems(2) x] by (simp add: quarterHours_toDouble [OF x])
  have q: "quarterHours (a + x)"
    using Cons.prems(2,3) x nn by (auto simp: quarterHours_def wholeQuarters_add)
  have "foldl (\<lambda>sum x. fadd sum (toDouble x)) (a + x) xs = (a + x) + sum_list xs"
    using Cons.prems(3) by (intro Cons.IH [OF xs q]) (simp add: add.assoc)
  then show ?case by (simp add: s add.assoc)
qed

lemma doubleSum_exact:
  assumes "list_all quarterHours xs" and "sum_list xs \<le> maxExactHours"
  shows "doubleSum xs = sum_list xs"
  unfolding doubleSum_def
  using foldl_fadd_exact [OF assms(1), of 0] assms(2) maxExactHours_double
  by (simp add: quarterHours_def wholeQuarters_0)

lemma sum_list_filter_le:
  assumes "list_all quarterHours (map g xs)"
  shows "sum_list (map g (filter P xs)) \<le> sum_list (map g xs)"
  using assms by (induction xs) (auto simp: quarterHours_def intro: add_increasing)

section \<open>Properties of the entry validation\<close>

lemma sumHoras_doubleSum: "sumHoras rs = doubleSum (map hr_horas rs)"
  by (simp add: sumHoras_def doubleSum_def foldl_map)

lemma quarterHourRecords_map:
  "quarterHourRecords rs \<longleftrightarrow>
     list_all quarterHours (map hr_horas rs) \<and> sum_list (map hr_horas rs) \<le> maxExactHours"
  by (simp add: quarterHourRecords_def list_all_iff)

lemma quarterHourRecords_filter:
  assumes "quarterHourRecords rs"
  shows "quarterHourRecords (filter P rs)"
proof -
  from assms have a: "list_all quarterHours (map hr_horas rs)"
    and b: "sum_list (map hr_horas rs) \<le> maxExactHours"
    by (simp_all add: quarterHourRecords_map)
  from a have "list_all quarterHours (map hr_horas (filter P rs))"
    by (simp add: list_all_iff)
  moreover from sum_list_filter_le [OF a, of P] b
  have "sum_list (map hr_horas (filter P rs)) \<le> maxExactHours" by simp
  ultimately show ?thesis by (simp add: quarterHourRecords_map)
qed

lemma quarterHourRecords_sum:
  assumes "quarterHourRecords rs"
  shows "quarterHours (sum_list (map hr_horas rs))"
  using assms sum_list_quarterHours [of "map hr_horas rs"]
  by (simp add: quarterHourRecords_map quarterHours_def)

lemma quarterHourRecords_member:
  "quarterHourRecords rs \<Longrightarrow> e \<in> set rs \<Longrightarrow> quarterHours (hr_horas e)"
  by (simp add: quarterHourRecords_def list_all_iff)

lemma sumHoras_exact:
  assumes "quarterHourRecords rs"
  shows "sumHoras (filter P rs) = sum_list (map hr_horas (filter P rs))"
  using quarterHourRecords_filter [OF assms, of P]
  by (simp add: sumHoras_doubleSum quarterHourRecords_map doubleSum_exact)

lemma getDailyHours_exact:
  "quarterHourRecords rs \<Longrightarrow> getDailyHours rs d = hoursOnDay rs d"
  by (simp add: getDailyHours_def hoursOnDay_def sumHoras_exact)

lemma getWeeklyHours_exact:
  "quarterHourRecords rs \<Longrightarrow> getWeeklyHours rs d = hoursInWeek rs d"
  by (simp add: getWeeklyHours_def hoursInWeek_def sumHoras_exact Let_def)

lemma hoursOnDay_quarterHours:
  "quarterHourRecords rs \<Longrightarrow> quarterHours (hoursOnDay rs d)"
  unfolding hoursOnDay_def by (intro quarterHourRecords_sum quarterHourRecords_filter)

lemma hoursInWeek_quarterHours:
  "quarterHourRecords rs \<Longrightarrow> quarterHours (hoursInWeek rs d)"
  unfolding hoursInWeek_def by (intro quarterHourRecords_sum quarterHourRecords_filter)

lemma sum_filter_remove1:
  "e \<in> set rs \<Longrightarrow> P e \<Longrightarrow>
   sum_list (map hr_horas (filter P rs))
     = hr_horas e + sum_list (map hr_horas (filter P (remove1 e rs)))"
  by (induction rs) (auto simp: add.left_commute)

lemma getDay_range: "0 \<le> getDay d \<and> getDay d < 7"
  by (simp add: getDay_def)

lemma week_contains_day: "isWithinInterval d (startOfWeek d) (endOfWeek d)"
proof -
  have "0 \<le> (getDay d + 6) mod 7" and "(getDay d + 6) mod 7 < 7" by simp_all
  then show ?thesis
    by (simp add: isWithinInterval_def startOfWeek_def endOfWeek_def)
qed

lemma startOfWeek_is_monday: "getDay (startOfWeek d) = 1"
  unfolding startOfWeek_def getDay_def by presburger

text \<open>
  With quarter hours recorded and no abandoned edit, the totals the form adjusts are the
  totals of the other records.
\<close>

lemma daily_adjusted_exact:
  assumes "quarterHourRecords (existingRecords p)" and "editedOnDay p d"
  shows "fsub (getDailyHours (existingRecords p) d) (editingHours p)
       = hoursOnDay (recordedOthers p) d"
proof (cases "recordToEdit p")
  case None
  have "fsub (hoursOnDay (existingRecords p) d) 0 = hoursOnDay (existingRecords p) d - 0"
    using hoursOnDay_quarterHours [OF assms(1), of d] maxExactHours_double
    by (intro fsub_exact) (simp_all add: quarterHours_def wholeQuarters_0)
  with None show ?thesis
    by (simp add: editingHours_def recordedOthers_def getDailyHours_exact [OF assms(1)])
next
  case (Some e)
  with assms(2) have e: "e \<in> set (existingRecords p)" and f: "fecha e = d"
    by (simp_all add: editedOnDay_def)
  from quarterHourRecords_member [OF assms(1) e] have q: "quarterHours (hr_horas e)" .
  have "fsub (hoursOnDay (existingRecords p) d) (hr_horas e)
          = hoursOnDay (existingRecords p) d - hr_horas e"
    using hoursOnDay_quarterHours [OF assms(1), of d] q by (rule fsub_exact)
  also have "\<dots> = hoursOnDay (remove1 e (existingRecords p)) d"
    using sum_filter_remove1 [OF e, of "\<lambda>record. fecha record = d"] f
    by (simp add: hoursOnDay_def)
  finally show ?thesis
    using Some
    by (simp add: editingHours_def recordedOthers_def getDailyHours_exact [OF assms(1)]
        quarterHours_toDouble [OF q])
qed

lemma weekly_adjusted_exact:
  assumes "quarterHourRecords (existingRecords p)" and "editedInWeek p d"
  shows "fsub (getWeeklyHours (existingRecords p) d) (editingHours p)
       = hoursInWeek (recordedOthers p) d"
proof (cases "recordToEdit p")
  case None
  have "fsub (hoursInWeek (existingRecords p) d) 0 = hoursInWeek (existingRecords p) d - 0"
    using hoursInWeek_quarterHours [OF assms(1), of d] maxExactHours_double
    by (intro fsub_exact) (simp_all add: quarterHours_def wholeQuarters_0)
  with None show ?thesis
    by (simp add: editingHours_def recordedOthers_def getWeeklyHours_exact [OF assms(1)])
next
  case (Some e)
  with assms(2) have e: "e \<in> set (existingRecords p)"
    and f: "isWithinInterval (fecha e) (startOfWeek d) (endOfWeek d)"
    by (simp_all add: editedInWeek_def)
  from quarterHourRecords_member [OF assms(1) e] have q: "quarterHours (hr_horas e)" .
  have "fsub (hoursInWeek (existingRecords p) d) (hr_horas e)
          = hoursInWeek (existingRecords p) d - hr_horas e"
    using hoursInWeek_quarterHours [OF assms(1), of d] q by (rule fsub_exact)
  also have "\<dots> = hoursInWeek (remove1 e (existingRecords p)) d"
    using sum_filter_remove1 [OF e,
        of "\<lambda>record. isWithinInterval (fecha record) (startOfWeek d) (endOfWeek d)"] f
    by (simp add: hoursInWeek_def)
  finally show ?thesis
    using Some
    by (simp add: editingHours_def recordedOthers_def getWeeklyHours_exact [OF assms(1)]
        quarterHours_toDouble [OF q])
qed

lemma recordedOthers_quarterHours:
  assumes "quarterHourRecords (existingRecords p)"
  shows "quarterHourRecords (recordedOthers p)"
proof (cases "recordToEdit p")
  case None
  with assms show ?thesis by (simp add: recordedOthers_def)
next
  case (Some e)
  from assms have a: "list_all quarterHours (map hr_horas (existingRecords p))"
    and b: "sum_list (map hr_horas (existingRecords p)) \<le> maxExactHours"
    by (simp_all add: quarterHourRecords_map)
  have s: "set (remove1 e (existingRecords p)) \<subseteq> set (existingRecords p)"
    by (rule set_remove1_subset)
  from a s have c: "list_all quarterHours (map hr_horas (remove1 e (existingRecords p)))"
    by (auto simp: list_all_iff)
  have "sum_list (map hr_horas (remove1 e (existingRecords p))) \<le> maxExactHours"
  proof (cases "e \<in> set (existingRecords p)")
    case False
    with b show ?thesis by (simp add: remove1_idem)
  next
    case True
    from sum_filter_remove1 [OF True, of "\<lambda>_. True"]
    have "sum_list (map hr_horas (existingRecords p))
            = hr_horas e + sum_list (map hr_horas (remove1 e (existingRecords p)))"
      by simp
    moreover have "0 \<le> hr_horas e"
      using quarterHourRecords_member [OF assms True] by (simp add: quarterHours_def)
    ultimately show ?thesis using b by simp
  qed
  with c Some show ?thesis by (simp add: recordedOthers_def quarterHourRecords_map)
qed


lemma handleSubmit_hours_accepted_fields:
  assumes "handleSubmit_hours p f = Inr s"
  shows "selectedCliente f \<noteq> [] \<and> trim (areaCliente f) \<noteq> []
       \<and> (\<exists>h d c. horas_form f = Some h \<and> 0 < toDouble h \<and> selectedDate f = Some d
            \<and> find (\<lambda>c. elementoPEP c = selectedCliente f) (clientes p) = Some c)"
  using assms
  by (auto simp: handleSubmit_hours_def Let_def split: if_splits option.splits)

lemma trim_Planta: "trim ''Planta'' = ''Planta''"
  by (simp add: trim_def isSpace_def)

lemma trim_Mant: "trim ''Mantenimiento'' = ''Mantenimiento''"
  by (simp add: trim_def isSpace_def)

text \<open>
  C4, as the claim states it, fails in three ways. The time-range form does not look at
  the limit: with 36 hours recorded from Monday to Thursday and a weekly limit of 40, it
  accepts ten more hours on Friday. The hours-count form subtracts the hours of the
  entry being edited also when that entry is of another week: with 44 of 44 hours
  recorded in the week and the entry of a Monday a week earlier still being edited, it
  accepts nine hours more. And its totals are doubles: with 36 hours and entries of 0.1
  and 0.2 hours recorded and a limit of 40, the rejection of four hours reports
  3.6999999999999957 hours as remaining, where 3.7 hours remain.
\<close>

theorem weekly_limit_not_as_claimed:
  "getWeeklyHours (existingRecords weekProps) 19727 = 36
   \<and> activeWeeklyLimit (settings_prop weekProps) = 40
   \<and> handleSubmit_timeRange weekProps (timeForm (Clock 7 30) (Clock 17 30) 19727) =
       Inr \<lparr> sv_clienteId = ''PEP-01'', sv_horas = 10, sv_fecha = 19727,
              sv_areaCliente = ''Planta'', sv_horaInicio = Some (Clock 7 30),
              sv_horaFin = Some (Clock 17 30), sv_descripcion = Some ''Mantenimiento'',
              sv_tipoActividad = Some ''En Oficina'', sv_ubicacion = None,
              sv_firma = None \<rparr>
   \<and> hoursInWeek (recordedOthers abandonedEditProps) 19724 = 44
   \<and> activeWeeklyLimit (settings_prop abandonedEditProps) = 44
   \<and> handleSubmit_hours abandonedEditProps (hoursForm 9 19724) =
       Inr \<lparr> sv_clienteId = ''PEP-01'', sv_horas = 9, sv_fecha = 19724,
            sv_areaCliente = ''Planta'', sv_horaInicio = None, sv_horaFin = None,
            sv_descripcion = None, sv_tipoActividad = None, sv_ubicacion = None,
            sv_firma = None \<rparr>
   \<and> 40 - hoursInWeek (recordedOthers tenthsWeekProps) 19727 = 37/10
   \<and> handleSubmit_hours tenthsWeekProps (hoursForm 4 19727) =
       Inl (LimiteSemanalExcedido 4 (520728706914713/140737488355328) 40)"
  by code_simp

lemma weekProps_eval_5:
  "handleSubmit_hours weekProps (hoursForm 5 19727) = Inl (LimiteSemanalExcedido 5 4 40)"
  by code_simp

lemma weekProps_eval_4:
  "handleSubmit_hours weekProps (hoursForm 4 19727) =
     Inr \<lparr> sv_clienteId = ''PEP-01'', sv_horas = 4, sv_fecha = 19727,
            sv_areaCliente = ''Planta'', sv_horaInicio = None, sv_horaFin = None,
            sv_descripcion = None, sv_tipoActividad = None, sv_ubicacion = None,
            sv_firma = None \<rparr>"
  by code_simp

lemma weekProps_quarterHours:
  "quarterHourRecords (existingRecords weekProps)"
  "quarterHours (activeWeeklyLimit (settings_prop weekProps))"
  "editedInWeek weekProps 19727"
  "quarterHours 5" "quarterHours 4"
  by code_simp+

text \<open>
  C4, amended: for every candidate entry (new or edited) submitted through the
  hours-count form, where the hours recorded, the candidate's hours and the weekly limit
  are quarter hours and the entry being edited, if there is one, is a recorded entry of
  the Monday to Sunday week of the candidate date: the form accepts the candidate only
  if the sum of the hours recorded in that week, excluding the entry being edited, plus
  the candidate's hours does not exceed the weekly limit, and its weekly rejection
  reports the hours still available in that week. The time-range form does not look at
  the recorded hours, the entry being edited or the settings at all.
\<close>

theorem weekly_limit_hours_form:
  "(horas_form f = Some h \<and> selectedDate f = Some d \<and> quarterHours h
      \<and> quarterHourRecords (existingRecords p)
      \<and> quarterHours (activeWeeklyLimit (settings_prop p)) \<and> editedInWeek p d \<longrightarrow>
      (\<forall>s. handleSubmit_hours p f = Inr s \<longrightarrow>
         hoursInWeek (recordedOthers p) d + h \<le> activeWeeklyLimit (settings_prop p))
      \<and> (\<forall>h' r l. handleSubmit_hours p f = Inl (LimiteSemanalExcedido h' r l) \<longrightarrow>
           h' = h \<and> l = activeWeeklyLimit (settings_prop p)
           \<and> r = l - hoursInWeek (recordedOthers p) d \<and> r < h))
   \<and> handleSubmit_timeRange
        (p\<lparr> existingRecords := rs, recordToEdit := ed, settings_prop := sto \<rparr>) f
       = handleSubmit_timeRange p f"
proof (rule conjI)
  show "horas_form f = Some h \<and> selectedDate f = Some d \<and> quarterHours h
      \<and> quarterHourRecords (existingRecords p)
      \<and> quarterHours (activeWeeklyLimit (settings_prop p)) \<and> editedInWeek p d \<longrightarrow>
      (\<forall>s. handleSubmit_hours p f = Inr s \<longrightarrow>
         hoursInWeek (recordedOthers p) d + h \<le> activeWeeklyLimit (settings_prop p))
      \<and> (\<forall>h' r l. handleSubmit_hours p f = Inl (LimiteSemanalExcedido h' r l) \<longrightarrow>
           h' = h \<and> l = activeWeeklyLimit (settings_prop p)
           \<and> r = l - hoursInWeek (recordedOthers p) d \<and> r < h)"
  proof (intro impI)
    assume H: "horas_form f = Some h \<and> selectedDate f = Some d \<and> quarterHours h
      \<and> quarterHourRecords (existingRecords p)
      \<and> quarterHours (activeWeeklyLimit (settings_prop p)) \<and> editedInWeek p d"
    then have hf: "horas_form f = Some h" and df: "selectedDate f = Some d"
      and qh: "quarterHours h" and qr: "quarterHourRecords (existingRecords p)"
      and ql: "quarterHours (activeWeeklyLimit (settings_prop p))" and ew: "editedInWeek p d"
      by blast+
    have hd: "toDouble h = h" using qh by (rule quarterHours_toDouble)
    have qo: "quarterHours (hoursInWeek (recordedOthers p) d)"
      using recordedOthers_quarterHours [OF qr] by (rule hoursInWeek_quarterHours)
    have rem: "remaining (weeklyHoursInfo p f)
                 = activeWeeklyLimit (settings_prop p) - hoursInWeek (recordedOthers p) d"
      using fsub_exact [OF ql qo]
      by (simp add: weeklyHoursInfo_def df Let_def weekly_adjusted_exact [OF qr ew])
    show "(\<forall>s. handleSubmit_hours p f = Inr s \<longrightarrow>
         hoursInWeek (recordedOthers p) d + h \<le> activeWeeklyLimit (settings_prop p))
      \<and> (\<forall>h' r l. handleSubmit_hours p f = Inl (LimiteSemanalExcedido h' r l) \<longrightarrow>
           h' = h \<and> l = activeWeeklyLimit (settings_prop p)
           \<and> r = l - hoursInWeek (recordedOthers p) d \<and> r < h)"
    proof (intro conjI allI impI)
      fix s assume a: "handleSubmit_hours p f = Inr s"
      from a hf df have "toDouble h \<le> remaining (weeklyHoursInfo p f)"
        by (auto simp: handleSubmit_hours_def Let_def split: option.splits if_splits)
      then show "hoursInWeek (recordedOthers p) d + h \<le> activeWeeklyLimit (settings_prop p)"
        by (simp add: rem hd)
    next
      fix h' r l assume a: "handleSubmit_hours p f = Inl (LimiteSemanalExcedido h' r l)"
      from a hf df have b: "h' = toDouble h \<and> l = activeWeeklyLimit (settings_prop p)
          \<and> r = remaining (weeklyHoursInfo p f) \<and> r < toDouble h"
        by (auto simp: handleSubmit_hours_def Let_def split: option.splits if_splits)
      from b show "h' = h" by (simp add: hd)
      from b show "l = activeWeeklyLimit (settings_prop p)" by simp
      from b show "r = l - hoursInWeek (recordedOthers p) d" by (simp add: rem)
      from b show "r < h" by (simp add: hd)
    qed
  qed
next
  show "handleSubmit_timeRange
        (p\<lparr> existingRecords := rs, recordToEdit := ed, settings_prop := sto \<rparr>) f
       = handleSubmit_timeRange p f"
    by (simp add: handleSubmit_timeRange_def cong: option.case_cong)
qed

theorem weekly_limit_hours_form_witness:
  "handleSubmit_hours weekProps (hoursForm 5 19727) = Inl (LimiteSemanalExcedido 5 4 40)
   \<and> (4::rat) = 40 - hoursInWeek (recordedOthers weekProps) 19727
   \<and> hoursInWeek (recordedOthers weekProps) 19727 + 4
        \<le> activeWeeklyLimit (settings_prop weekProps)"
proof -
  note t = weekly_limit_hours_form [where p = weekProps and d = 19727 and rs = "[]"
      and ed = None and sto = None]
  have f5: "selectedDate (hoursForm 5 19727) = Some 19727" "horas_form (hoursForm 5 19727) = Some 5"
    and f4: "selectedDate (hoursForm 4 19727) = Some 19727" "horas_form (hoursForm 4 19727) = Some 4"
    by (simp_all add: hoursForm_def)
  from t [where f = "hoursForm 5 19727" and h = 5] weekProps_eval_5 f5 weekProps_quarterHours
  have a: "(4::rat) = 40 - hoursInWeek (recordedOthers weekProps) 19727"
    by blast
  from t [where f = "hoursForm 4 19727" and h = 4] weekProps_eval_4 f4 weekProps_quarterHours
  have b: "hoursInWeek (recordedOthers weekProps) 19727 + 4
        \<le> activeWeeklyLimit (settings_prop weekProps)"
    by blast
  from a b weekProps_eval_5 show ?thesis by simp
qed






text \<open>
  C8, as the claim states it, fails because the totals are doubles. With entries of 8,
  0.3, 0.3 and 0.4 hours recorded on a Tuesday whose limit is nine, the entry of 8 hours
  was accepted against the three others, which add up to one hour. Editing it and
  keeping its 8 hours, the form adds the four entries to 9.000000000000002, subtracts 8
  and adds 8 again, and refuses the edit with the daily limit.
\<close>

theorem edit_same_hours_refused:
  "handleSubmit_hours
     (tenthsEditProps\<lparr> existingRecords := remove1 (mkRecord 1 8 19724)
                                             (existingRecords tenthsEditProps),
                        recordToEdit := None \<rparr>) (hoursForm 8 19724) =
       Inr \<lparr> sv_clienteId = ''PEP-01'', sv_horas = 8, sv_fecha = 19724,
            sv_areaCliente = ''Planta'', sv_horaInicio = None, sv_horaFin = None,
            sv_descripcion = None, sv_tipoActividad = None, sv_ubicacion = None,
            sv_firma = None \<rparr>
   \<and> recordToEdit tenthsEditProps = Some (mkRecord 1 8 19724)
   \<and> handleSubmit_hours tenthsEditProps (hoursForm 8 19724) =
       Inl (LimiteDiarioExcedido 8 (562949953421313/562949953421312)
              (4503599627370495/562949953421312) 9)"
  by code_simp

lemma handleSubmit_hours_edit_eq:
  assumes "recordToEdit p = Some e" and "e \<in> set (existingRecords p)"
    and "selectedDate f = Some (fecha e)" and "quarterHourRecords (existingRecords p)"
  shows "handleSubmit_hours p f
       = handleSubmit_hours (p\<lparr> existingRecords := remove1 e (existingRecords p),
                                recordToEdit := None \<rparr>) f"
    and "fsub (getDailyHours (existingRecords p) (fecha e)) (editingHours p)
           = getDailyHours (remove1 e (existingRecords p)) (fecha e)"
    and "used (weeklyHoursInfo p f)
           = getWeeklyHours (remove1 e (existingRecords p)) (fecha e)"
proof -
  let ?q = "p\<lparr> existingRecords := remove1 e (existingRecords p), recordToEdit := None \<rparr>"
  have o: "recordedOthers p = remove1 e (existingRecords p)"
    "recordedOthers ?q = remove1 e (existingRecords p)"
    using assms(1) by (simp_all add: recordedOthers_def)
  have qq: "quarterHourRecords (existingRecords ?q)"
    using recordedOthers_quarterHours [OF assms(4)] o(1) by simp
  have ep: "editedOnDay p (fecha e)" "editedInWeek p (fecha e)"
    using assms(1,2) week_contains_day [of "fecha e"]
    by (simp_all add: editedOnDay_def editedInWeek_def)
  have eq: "editedOnDay ?q (fecha e)" "editedInWeek ?q (fecha e)"
    by (simp_all add: editedOnDay_def editedInWeek_def)
  have d: "fsub (getDailyHours (existingRecords p) (fecha e)) (editingHours p)
         = fsub (getDailyHours (existingRecords ?q) (fecha e)) (editingHours ?q)"
    unfolding daily_adjusted_exact [OF assms(4) ep(1)] daily_adjusted_exact [OF qq eq(1)] o ..
  have u: "fsub (getWeeklyHours (existingRecords p) (fecha e)) (editingHours p)
         = fsub (getWeeklyHours (existingRecords ?q) (fecha e)) (editingHours ?q)"
    unfolding weekly_adjusted_exact [OF assms(4) ep(2)] weekly_adjusted_exact [OF qq eq(2)] o ..
  have s: "settings_prop ?q = settings_prop p" "clientes ?q = clientes p"
    "selectedDate f = Some (fecha e)"
    using assms(3) by simp_all
  have w: "weeklyHoursInfo p f = weeklyHoursInfo ?q f"
    unfolding weeklyHoursInfo_def s option.case Let_def u ..
  show "handleSubmit_hours p f = handleSubmit_hours ?q f"
    unfolding handleSubmit_hours_def w d s option.case Let_def ..
  have "quarterHourRecords (remove1 e (existingRecords p))" using qq by simp
  then show "fsub (getDailyHours (existingRecords p) (fecha e)) (editingHours p)
           = getDailyHours (remove1 e (existingRecords p)) (fecha e)"
    by (simp add: daily_adjusted_exact [OF assms(4) ep(1)] o getDailyHours_exact)
  from \<open>quarterHourRecords (remove1 e (existingRecords p))\<close>
  show "used (weeklyHoursInfo p f)
           = getWeeklyHours (remove1 e (existingRecords p)) (fecha e)"
    by (simp add: weeklyHoursInfo_def s Let_def weekly_adjusted_exact [OF assms(4) ep(2)] o
        getWeeklyHours_exact)
qed

text \<open>
  C8, amended: when the hours recorded are quarter hours, the entry being edited is among
  the recorded entries, and the edit keeps its date and its hours, the form returns what
  it returns for a new entry against the other records: an edit whose original
  submission was accepted is accepted again. The adjusted daily total and the adjusted
  weekly total are the totals of the other records.
\<close>

theorem edit_same_hours_revalidates:
  assumes "recordToEdit p = Some e" and "e \<in> set (existingRecords p)"
    and "selectedDate f = Some (fecha e)" and "horas_form f = Some (hr_horas e)"
    and "quarterHourRecords (existingRecords p)"
    and "handleSubmit_hours (p\<lparr> existingRecords := remove1 e (existingRecords p),
                                recordToEdit := None \<rparr>) f = Inr s"
  shows "handleSubmit_hours p f = Inr s
       \<and> fsub (getDailyHours (existingRecords p) (fecha e)) (editingHours p)
           = getDailyHours (remove1 e (existingRecords p)) (fecha e)
       \<and> used (weeklyHoursInfo p f)
           = getWeeklyHours (remove1 e (existingRecords p)) (fecha e)"
  using handleSubmit_hours_edit_eq [OF assms(1-3,5)] assms(6) by simp

lemma editProps_original:
  "handleSubmit_hours (editProps\<lparr> existingRecords := remove1 (mkRecord 1 5 19724)
                                    (existingRecords editProps),
                                 recordToEdit := None \<rparr>) (hoursForm 5 19724)
     = Inr \<lparr> sv_clienteId = ''PEP-01'', sv_horas = 5, sv_fecha = 19724,
            sv_areaCliente = ''Planta'', sv_horaInicio = None, sv_horaFin = None,
            sv_descripcion = None, sv_tipoActividad = None, sv_ubicacion = None,
            sv_firma = None \<rparr>"
  by code_simp

lemma editProps_quarterHours: "quarterHourRecords (existingRecords editProps)"
  by code_simp

theorem edit_same_hours_revalidates_witness:
  "handleSubmit_hours editProps (hoursForm 5 19724)
     = Inr \<lparr> sv_clienteId = ''PEP-01'', sv_horas = 5, sv_fecha = 19724,
            sv_areaCliente = ''Planta'', sv_horaInicio = None, sv_horaFin = None,
            sv_descripcion = None, sv_tipoActividad = None, sv_ubicacion = None,
            sv_firma = None \<rparr>"
proof -
  have a: "recordToEdit editProps = Some (mkRecord 1 5 19724)"
    and b: "mkRecord 1 5 19724 \<in> set (existingRecords editProps)"
    and c: "selectedDate (hoursForm 5 19724) = Some (fecha (mkRecord 1 5 19724))"
    and d: "horas_form (hoursForm 5 19724) = Some (hr_horas (mkRecord 1 5 19724))"
    by (simp_all add: editProps_def hoursForm_def mkRecord_def)
  from edit_same_hours_revalidates [OF a b c d editProps_quarterHours editProps_original]
  show ?thesis by simp
qed

text \<open>
  C9, as the claim states it, fails when the location request was refused: an on-site
  entry with a signature and no location is accepted.
\<close>

theorem onsite_without_location_accepted:
  "tipoActividad onSiteForm = ''En Cliente'' \<and> ubicacion onSiteForm = None
   \<and> handleSubmit_timeRange props0 onSiteForm =
       Inr \<lparr> sv_clienteId = ''PEP-01'', sv_horas = 10, sv_fecha = 19724,
              sv_areaCliente = ''Planta'', sv_horaInicio = Some (Clock 7 30),
              sv_horaFin = Some (Clock 17 30), sv_descripcion = Some ''Mantenimiento'',
              sv_tipoActividad = Some ''En Cliente'', sv_ubicacion = None,
              sv_firma = Some ''data:image/png;base64,iVBORw0KGgo='' \<rparr>"
  by (simp add: handleSubmit_timeRange_def onSiteForm_def props0_def clientes0_def
      trim_Planta trim_Mant)

text \<open>
  C9, amended: an on-site entry is accepted only with a signature and with a location
  or a refused location request. When the same form would be accepted as an office
  entry, the on-site entry fails with the location message if there is neither a
  location nor a refusal, otherwise with the signature message if the signature is
  missing, and is accepted otherwise.
\<close>

theorem onsite_evidence_required:
  assumes "tipoActividad f = ''En Cliente''"
  shows "(\<forall>e. handleSubmit_timeRange p f = Inr e \<longrightarrow>
            (firma f \<noteq> None \<and> firma f \<noteq> Some [])
            \<and> (ubicacion f \<noteq> None \<or> ubicacionRechazada f))
       \<and> (\<forall>e0. handleSubmit_timeRange p (f\<lparr> tipoActividad := ''En Oficina'' \<rparr>) = Inr e0 \<longrightarrow>
            handleSubmit_timeRange p f =
              (if ubicacion f = None \<and> \<not> ubicacionRechazada f then Inl UbicacionRequerida
               else if firma f = None \<or> firma f = Some [] then Inl FirmaRequerida
               else Inr (e0\<lparr> sv_tipoActividad := Some ''En Cliente'' \<rparr>)))"
  using assms
  by (auto simp: handleSubmit_timeRange_def Let_def split: option.splits if_splits prod.splits)

lemma noFirmaForm_office:
  "handleSubmit_timeRange props0 (noFirmaForm\<lparr> tipoActividad := ''En Oficina'' \<rparr>) =
     Inr \<lparr> sv_clienteId = ''PEP-01'', sv_horas = 10, sv_fecha = 19724,
            sv_areaCliente = ''Planta'', sv_horaInicio = Some (Clock 7 30),
            sv_horaFin = Some (Clock 17 30), sv_descripcion = Some ''Mantenimiento'',
            sv_tipoActividad = Some ''En Oficina'', sv_ubicacion = Some (23/5, -74),
            sv_firma = None \<rparr>"
  by (simp add: handleSubmit_timeRange_def noFirmaForm_def props0_def clientes0_def
      trim_Planta trim_Mant)

theorem onsite_evidence_required_witness:
  "tipoActividad noFirmaForm = ''En Cliente''
   \<and> handleSubmit_timeRange props0 noFirmaForm = Inl FirmaRequerida"
proof -
  have a: "tipoActividad noFirmaForm = ''En Cliente''"
    by (simp add: noFirmaForm_def)
  have b: "ubicacion noFirmaForm \<noteq> None" "firma noFirmaForm = None"
    by (simp_all add: noFirmaForm_def)
  from onsite_evidence_required [OF a, of props0] noFirmaForm_office
  have "handleSubmit_timeRange props0 noFirmaForm =
          (if ubicacion noFirmaForm = None \<and> \<not> ubicacionRechazada noFirmaForm
           then Inl UbicacionRequerida
           else if firma noFirmaForm = None \<or> firma noFirmaForm = Some []
           then Inl FirmaRequerida
           else Inr (\<lparr> sv_clienteId = ''PEP-01'', sv_horas = 10, sv_fecha = 19724,
            sv_areaCliente = ''Planta'', sv_horaInicio = Some (Clock 7 30),
            sv_horaFin = Some (Clock 17 30), sv_descripcion = Some ''Mantenimiento'',
            sv_tipoActividad = Some ''En Oficina'', sv_ubicacion = Some (23/5, -74),
            sv_firma = None \<rparr>\<lparr> sv_tipoActividad := Some ''En Cliente'' \<rparr>))"
    by blast
  with a b show ?thesis by simp
qed

section \<open>Properties of the review screen\<close>

subsection \<open>Bulk approval\<close>

lemma updateReport_map:
  "updateReport rid ns c rs =
     map (\<lambda>r. if report_id r = rid then patchStatus ns c r else r) rs"
  by (simp add: updateReport_def patchStatus_def)

lemma updateAll_map:
  "updateAll ps ns c rs =
     map (\<lambda>r. if report_id r \<in> report_id ` set ps then patchStatus ns c r else r) rs"
proof -
  have "foldl (\<lambda>rs report. updateReport (report_id report) ns c rs) rs ps =
     map (\<lambda>r. if report_id r \<in> report_id ` set ps then patchStatus ns c r else r) rs"
  proof (induction ps arbitrary: rs)
    case Nil
    show ?case by simp
  next
    case (Cons p ps)
    show ?case
      unfolding foldl_Cons Cons.IH
      by (auto simp: updateReport_map patchStatus_def)
  qed
  then show ?thesis by (simp add: updateAll_def)
qed

lemma id_in_filter:
  assumes "distinct (map report_id rs)" and "r \<in> set rs"
  shows "report_id r \<in> report_id ` set (filter P rs) \<longleftrightarrow> P r"
proof
  assume "report_id r \<in> report_id ` set (filter P rs)"
  then obtain q where q: "q \<in> set rs" "P q" "report_id q = report_id r" by auto
  from assms(1) have "inj_on report_id (set rs)" by (simp add: distinct_map)
  with q assms(2) have "q = r" by (auto dest: inj_onD)
  with q show "P r" by simp
next
  assume "P r" with assms(2) show "report_id r \<in> report_id ` set (filter P rs)" by auto
qed

text \<open>
  With distinct report identifiers, each bulk handler patches exactly the reports it
  selects: every report of the day (or within the week) whose status is neither 1 nor 2
  receives the new status, and every report with status 1 or 2 stays as it is.
\<close>

lemma handleBulkApproval_map:
  assumes "distinct (map report_id reports)"
  shows "handleBulkApproval reports d ns c =
     map (\<lambda>r. if pendingOn d r then patchStatus ns c r else r) reports"
proof -
  let ?ps = "filter (\<lambda>r. aprobado r \<noteq> Some 1 \<and> aprobado r \<noteq> Some 2) (getReportsForDate reports d)"
  have ps: "?ps = filter (pendingOn d) reports"
    by (auto simp: getReportsForDate_def pendingOn_def isSameDay_def
        intro!: filter_cong split: option.splits)
  have m: "map (\<lambda>r. if report_id r \<in> report_id ` set ?ps then patchStatus ns c r else r) reports
         = map (\<lambda>r. if pendingOn d r then patchStatus ns c r else r) reports"
    unfolding ps using id_in_filter [OF assms] by (auto intro!: map_cong)
  show ?thesis
  proof (cases "?ps = []")
    case True
    then have "handleBulkApproval reports d ns c = reports"
      by (simp add: handleBulkApproval_def Let_def)
    moreover from True have "map (\<lambda>r. if report_id r \<in> report_id ` set ?ps then patchStatus ns c r else r) reports = reports"
      by (simp add: map_idI)
    ultimately show ?thesis using m by simp
  next
    case False
    then have "handleBulkApproval reports d ns c = updateAll ?ps ns c reports"
      by (simp add: handleBulkApproval_def Let_def)
    then show ?thesis using m by (simp add: updateAll_map)
  qed
qed

lemma handleBulkWeekApproval_map:
  assumes "distinct (map report_id reports)"
  shows "handleBulkWeekApproval reports a b ns c =
     map (\<lambda>r. if pendingWithin a b r then patchStatus ns c r else r) reports"
proof -
  let ?ps = "filter (\<lambda>report.
                      case fecha_trabajada report of
                        None \<Rightarrow> False
                      | Some reportDate \<Rightarrow>
                          if aprobado report = Some 1 \<or> aprobado report = Some 2 then False
                          else isWithinInterval reportDate a b) reports"
  have ps: "?ps = filter (pendingWithin a b) reports"
    by (auto simp: pendingWithin_def isWithinInterval_def
        intro!: filter_cong split: option.splits)
  have m: "map (\<lambda>r. if report_id r \<in> report_id ` set ?ps then patchStatus ns c r else r) reports
         = map (\<lambda>r. if pendingWithin a b r then patchStatus ns c r else r) reports"
    unfolding ps using id_in_filter [OF assms] by (auto intro!: map_cong)
  show ?thesis
  proof (cases "?ps = []")
    case True
    then have "handleBulkWeekApproval reports a b ns c = reports"
      by (simp add: handleBulkWeekApproval_def Let_def)
    moreover from True have "map (\<lambda>r. if report_id r \<in> report_id ` set ?ps then patchStatus ns c r else r) reports = reports"
      by (simp add: map_idI)
    ultimately show ?thesis using m by simp
  next
    case False
    then have "handleBulkWeekApproval reports a b ns c = updateAll ?ps ns c reports"
      by (simp add: handleBulkWeekApproval_def Let_def)
    then show ?thesis using m by (simp add: updateAll_map)
  qed
qed

text \<open>
  C1: a report approved without overtime (status 3) is selected by both bulk handlers as
  if it were pending. On a day with one such report and one pending report, approving
  the day turns the first into status 1, and rejecting the week turns it into status 2.
\<close>

theorem bulk_overwrites_partial_approval:
  "aprobado partialReport = Some 3
   \<and> handleBulkApproval [partialReport, pendingReport] 19724 1 77
       = [partialReport\<lparr> aprobado := Some 1, aprobadopor := Some 77 \<rparr>,
          pendingReport\<lparr> aprobado := Some 1, aprobadopor := Some 77 \<rparr>]
   \<and> handleBulkWeekApproval [partialReport, pendingReport] 19723 19729 2 77
       = [partialReport\<lparr> aprobado := Some 2, aprobadopor := Some 77 \<rparr>,
          pendingReport\<lparr> aprobado := Some 2, aprobadopor := Some 77 \<rparr>]"
  by (simp add: handleBulkApproval_def handleBulkWeekApproval_def getReportsForDate_def
      updateAll_def updateReport_def partialReport_def pendingReport_def isSameDay_def
      isWithinInterval_def)

subsection \<open>Approval without overtime\<close>

lemma round_5_3: "round (5/3 :: rat) = 2"
  by code_simp

lemma toFixed2_pos_iff: "0 < toFixed2 (rat_of_int m / 60) \<longleftrightarrow> 0 < m"
proof
  assume p: "0 < toFixed2 (rat_of_int m / 60)"
  show "0 < m"
  proof (rule ccontr)
    assume "\<not> 0 < m"
    then have le: "rat_of_int m / 60 \<le> 0" by (simp add: divide_le_0_iff)
    have "0 \<le> round (- (rat_of_int m / 60) * 100)"
      using round_mono [of 0 "- (rat_of_int m / 60) * 100"] le by simp
    then have "toFixed2 (rat_of_int m / 60) \<le> 0"
      using le by (auto simp: toFixed2_def)
    with p show False by simp
  qed
next
  assume "0 < m"
  then have "1 \<le> m" by simp
  then have "rat_of_int 1 \<le> rat_of_int m" by (rule of_int_le_iff [THEN iffD2])
  then have "1 \<le> rat_of_int m" by simp
  then have "5/3 \<le> rat_of_int m / 60 * 100" by simp
  then have "2 \<le> round (rat_of_int m / 60 * 100)"
    using round_mono [of "5/3" "rat_of_int m / 60 * 100"] round_5_3 by simp
  moreover have "\<not> rat_of_int m / 60 < 0" using \<open>0 < m\<close> by simp
  ultimately show "0 < toFixed2 (rat_of_int m / 60)"
    by (simp add: toFixed2_def)
qed

lemma extra_pos_minutes:
  assumes "0 < extra (calculateHoursBreakdown_PayrollReview sto r)"
  shows "\<exists>st inicio fin d. sto = Some st \<and> hora_inicio r = Some inicio
           \<and> hora_fin r = Some fin \<and> fecha_trabajada r = Some d
           \<and> 0 < extraMinutes (splitMinutes_PayrollReview st inicio fin d)"
  using assms
  by (auto simp: calculateHoursBreakdown_PayrollReview_def legacyBreakdown_def
      hoursOfSplit_def toFixed2_pos_iff split: option.splits)

lemma AprobarSinExtras_offered:
  "AprobarSinExtras \<in> set (availableActions sto r) \<longleftrightarrow>
     aprobado r \<noteq> Some 1 \<and> aprobado r \<noteq> Some 2 \<and> aprobado r \<noteq> Some 3
     \<and> 0 < extra (calculateHoursBreakdown_PayrollReview sto r)"
  by (simp add: availableActions_def Let_def)

lemma statusOf_3: "statusOf a = 3 \<longleftrightarrow> a = AprobarSinExtras"
  by (cases a) simp_all

lemma reviewStep_reaches_3:
  assumes "reviewStep sto c reports reports'" and "distinct (map report_id reports)"
    and "r' \<in> set reports'" and "aprobado r' = Some 3"
  shows "r' \<in> set reports
       \<or> (\<exists>r\<in>set reports. r' = r\<lparr> aprobado := Some 3, aprobadopor := Some c \<rparr>
             \<and> AprobarSinExtras \<in> set (availableActions sto r))"
  using assms
proof (cases rule: reviewStep.cases)
  case (button report a)
  from assms(3) obtain r where r: "r \<in> set reports"
    "r' = (if report_id r = report_id report then patchStatus (statusOf a) c r else r)"
    unfolding button(1) updateReport_map by auto
  show ?thesis
  proof (cases "report_id r = report_id report")
    case False with r show ?thesis by simp
  next
    case True
    from assms(2) have "inj_on report_id (set reports)" by (simp add: distinct_map)
    with True r(1) button(2) have eq: "r = report" by (auto dest: inj_onD)
    from True r(2) assms(4) have "statusOf a = 3" by (simp add: patchStatus_def)
    then have "a = AprobarSinExtras" by (simp add: statusOf_3)
    with True r eq button(3) show ?thesis by (auto simp: patchStatus_def)
  qed
next
  case (bulkDay newStatus d)
  from assms(3) obtain r where r: "r \<in> set reports"
    "r' = (if pendingOn d r then patchStatus newStatus c r else r)"
    unfolding bulkDay(1) handleBulkApproval_map [OF assms(2)] by auto
  with assms(4) bulkDay(2) show ?thesis
    by (cases "pendingOn d r") (auto simp: patchStatus_def)
next
  case (bulkWeek newStatus a b)
  from assms(3) obtain r where r: "r \<in> set reports"
    "r' = (if pendingWithin a b r then patchStatus newStatus c r else r)"
    unfolding bulkWeek(1) handleBulkWeekApproval_map [OF assms(2)] by auto
  with assms(4) bulkWeek(2) show ?thesis
    by (cases "pendingWithin a b r") (auto simp: patchStatus_def)
qed

text \<open>
  C6: the button that approves without overtime is shown exactly for a report whose
  status is none of 1, 2, 3 and whose computed overtime is positive, and positive
  overtime means a time-range report whose overtime minutes are positive. After any
  step of the review screen (a button of a report, or a bulk handler called with status
  1 or 2) on reports with distinct identifiers, a report with status 3 either was there
  unchanged before the step or comes from a pending report with positive overtime.
\<close>

theorem partial_approval_needs_overtime:
  "(AprobarSinExtras \<in> set (availableActions sto r) \<longleftrightarrow>
      aprobado r \<noteq> Some 1 \<and> aprobado r \<noteq> Some 2 \<and> aprobado r \<noteq> Some 3
      \<and> 0 < extra (calculateHoursBreakdown_PayrollReview sto r))
   \<and> (0 < extra (calculateHoursBreakdown_PayrollReview sto r) \<longrightarrow>
        (\<exists>st inicio fin d. sto = Some st \<and> hora_inicio r = Some inicio
           \<and> hora_fin r = Some fin \<and> fecha_trabajada r = Some d
           \<and> 0 < extraMinutes (splitMinutes_PayrollReview st inicio fin d)))
   \<and> (reviewStep sto c reports reports' \<and> distinct (map report_id reports)
        \<and> r' \<in> set reports' \<and> aprobado r' = Some 3 \<longrightarrow>
        r' \<in> set reports
        \<or> (\<exists>r0\<in>set reports. r' = r0\<lparr> aprobado := Some 3, aprobadopor := Some c \<rparr>
              \<and> aprobado r0 \<noteq> Some 1 \<and> aprobado r0 \<noteq> Some 2 \<and> aprobado r0 \<noteq> Some 3
              \<and> 0 < extra (calculateHoursBreakdown_PayrollReview sto r0)))"
proof (intro conjI impI)
  show "AprobarSinExtras \<in> set (availableActions sto r) \<longleftrightarrow>
      aprobado r \<noteq> Some 1 \<and> aprobado r \<noteq> Some 2 \<and> aprobado r \<noteq> Some 3
      \<and> 0 < extra (calculateHoursBreakdown_PayrollReview sto r)"
    by (rule AprobarSinExtras_offered)
next
  assume "0 < extra (calculateHoursBreakdown_PayrollReview sto r)"
  then show "\<exists>st inicio fin d. sto = Some st \<and> hora_inicio r = Some inicio
           \<and> hora_fin r = Some fin \<and> fecha_trabajada r = Some d
           \<and> 0 < extraMinutes (splitMinutes_PayrollReview st inicio fin d)"
    by (rule extra_pos_minutes)
next
  assume a: "reviewStep sto c reports reports' \<and> distinct (map report_id reports)
        \<and> r' \<in> set reports' \<and> aprobado r' = Some 3"
  then have "r' \<in> set reports
       \<or> (\<exists>r\<in>set reports. r' = r\<lparr> aprobado := Some 3, aprobadopor := Some c \<rparr>
             \<and> AprobarSinExtras \<in> set (availableActions sto r))"
    using reviewStep_reaches_3 by blast
  then show "r' \<in> set reports
        \<or> (\<exists>r0\<in>set reports. r' = r0\<lparr> aprobado := Some 3, aprobadopor := Some c \<rparr>
              \<and> aprobado r0 \<noteq> Some 1 \<and> aprobado r0 \<noteq> Some 2 \<and> aprobado r0 \<noteq> Some 3
              \<and> 0 < extra (calculateHoursBreakdown_PayrollReview sto r0))"
    unfolding AprobarSinExtras_offered by blast
qed

lemma tuesday_extra:
  "extra (calculateHoursBreakdown_PayrollReview (Some emptySettings) tuesdayReport) = 1"
  "extra (calculateHoursBreakdown_PayrollReview (Some emptySettings) legacyReport) = 0"
  by code_simp+

theorem partial_approval_needs_overtime_witness:
  "reviewStep (Some emptySettings) 77 [tuesdayReport]
     [tuesdayReport\<lparr> aprobado := Some 3, aprobadopor := Some 77 \<rparr>]
   \<and> AprobarSinExtras \<in> set (availableActions (Some emptySettings) tuesdayReport)
   \<and> 0 < extraMinutes (splitMinutes_PayrollReview emptySettings (Clock 7 0) (Clock 18 0) 19724)
   \<and> AprobarSinExtras \<notin> set (availableActions (Some emptySettings) legacyReport)"
proof -
  note t = partial_approval_needs_overtime
    [where sto = "Some emptySettings" and c = 77 and reports = "[tuesdayReport]"
       and reports' = "[tuesdayReport\<lparr> aprobado := Some 3, aprobadopor := Some 77 \<rparr>]"
       and r' = "tuesdayReport\<lparr> aprobado := Some 3, aprobadopor := Some 77 \<rparr>"]
  have p: "aprobado tuesdayReport = Some 0" "aprobado legacyReport = Some 0"
    "hora_inicio tuesdayReport = Some (Clock 7 0)" "hora_fin tuesdayReport = Some (Clock 18 0)"
    "fecha_trabajada tuesdayReport = Some 19724"
    by (simp_all add: tuesdayReport_def legacyReport_def)
  have a: "AprobarSinExtras \<in> set (availableActions (Some emptySettings) tuesdayReport)"
    using t [where r = tuesdayReport] p tuesday_extra by simp
  have b: "AprobarSinExtras \<notin> set (availableActions (Some emptySettings) legacyReport)"
    using t [where r = legacyReport] p tuesday_extra by simp
  have c: "0 < extraMinutes (splitMinutes_PayrollReview emptySettings (Clock 7 0) (Clock 18 0) 19724)"
    using t [where r = tuesdayReport] p tuesday_extra by auto
  have "reviewStep (Some emptySettings) 77 [tuesdayReport]
          (updateReport (report_id tuesdayReport) (statusOf AprobarSinExtras) 77 [tuesdayReport])"
    by (rule reviewStep.button [OF _ a]) simp
  then have s: "reviewStep (Some emptySettings) 77 [tuesdayReport]
     [tuesdayReport\<lparr> aprobado := Some 3, aprobadopor := Some 77 \<rparr>]"
    by (simp add: updateReport_def)
  from s a b c show ?thesis by simp
qed

subsection \<open>Weekly totals\<close>


















text \<open>
  The week of 2024-01-01 with an approved, a partially approved, a pending and a
  rejected report: the partially approved report of 11 hours adds 10 to the approved and
  1 to the rejected hours.
\<close>

lemma weeklyTotals_partial_example:
  "map (\<lambda>w. (totalHours w, approved w, rejected w, pending w))
     (weeklyTotals (Some emptySettings)
        [approvedReport, partialReport, pendingReport, rejectedReport] 19723 19753)
     = [(25, 18, 3, 4)]"
  by code_simp

end
